theory Spec2Isabelle
  imports Complex_Main "HOL-Library.Log_Nat"
begin

section \<open>Floating-point amounts (Go's float64)\<close>

text \<open>
  The amounts of the source are \<open>float64\<close>. A value of the type is a rational
  number, an infinity or a NaN; the two zeros are one value here (no code of the model
  tells them apart). The result of an operation on finite values is the exact result
  rounded to the nearest value with a significand of 53 bits, a tie going to the even
  significand; below \<open>2^-1022\<close> the spacing stays \<open>2^-1074\<close>, and a rounded
  value of \<open>2^1024\<close> or more is an infinity. A product is rounded before it is
  added (Go allows a compiler to fuse the two operations on some processors; the fused
  result differs only where the product itself is rounded).
\<close>

datatype float64 =
    Finite rat
  | PosInf
  | NegInf
  | NaN

definition pow2 :: "int \<Rightarrow> rat" where
  "pow2 k = (if 0 \<le> k then 2 ^ nat k else 1 / 2 ^ nat (- k))"

definition round_half_even :: "rat \<Rightarrow> int" where
  "round_half_even q =
     (let f = \<lfloor>q\<rfloor>; r = q - of_int f
      in if r < 1 / 2 then f
         else if 1 / 2 < r then f + 1
         else if even f then f else f + 1)"

text \<open>The binary exponent of a positive number: the \<open>e\<close> with \<open>2^e \<le> x < 2^(e+1)\<close>.\<close>

definition binary_exponent :: "rat \<Rightarrow> int" where
  "binary_exponent x =
     (if 1 \<le> x then bitlen \<lfloor>x\<rfloor> - 1 else - bitlen (\<lceil>1 / x\<rceil> - 1))"

definition float64_round :: "rat \<Rightarrow> float64" where
  "float64_round x =
     (if x = 0 then Finite 0
      else
        let e = max (binary_exponent \<bar>x\<bar>) (- 1022);
            ulp = pow2 (e - 52);
            y = of_int (round_half_even (x / ulp)) * ulp
        in if pow2 1024 \<le> \<bar>y\<bar> then (if 0 < x then PosInf else NegInf) else Finite y)"

text \<open>The conversion \<open>float64(n)\<close> of an integer, and the operators \<open>+\<close>, \<open>*\<close>, \<open><\<close>, \<open><=\<close>.\<close>

definition float64_of_int :: "int \<Rightarrow> float64" where
  "float64_of_int n = float64_round (of_int n)"

fun float64_add :: "float64 \<Rightarrow> float64 \<Rightarrow> float64" where
  "float64_add (Finite a) (Finite b) = float64_round (a + b)"
| "float64_add NaN y = NaN"
| "float64_add x NaN = NaN"
| "float64_add PosInf NegInf = NaN"
| "float64_add NegInf PosInf = NaN"
| "float64_add PosInf y = PosInf"
| "float64_add NegInf y = NegInf"
| "float64_add (Finite a) PosInf = PosInf"
| "float64_add (Finite a) NegInf = NegInf"

text \<open>The sign of a product with an infinity; zero times an infinity is NaN.\<close>

definition signed_infinity :: "bool \<Rightarrow> float64" where
  "signed_infinity positive = (if positive then PosInf else NegInf)"

fun float64_mul :: "float64 \<Rightarrow> float64 \<Rightarrow> float64" where
  "float64_mul (Finite a) (Finite b) = float64_round (a * b)"
| "float64_mul NaN y = NaN"
| "float64_mul x NaN = NaN"
| "float64_mul PosInf PosInf = PosInf"
| "float64_mul PosInf NegInf = NegInf"
| "float64_mul NegInf PosInf = NegInf"
| "float64_mul NegInf NegInf = PosInf"
| "float64_mul (Finite a) PosInf = (if a = 0 then NaN else signed_infinity (0 < a))"
| "float64_mul (Finite a) NegInf = (if a = 0 then NaN else signed_infinity (a < 0))"
| "float64_mul PosInf (Finite b) = (if b = 0 then NaN else signed_infinity (0 < b))"
| "float64_mul NegInf (Finite b) = (if b = 0 then NaN else signed_infinity (b < 0))"

fun float64_less :: "float64 \<Rightarrow> float64 \<Rightarrow> bool" where
  "float64_less (Finite a) (Finite b) \<longleftrightarrow> a < b"
| "float64_less NaN y \<longleftrightarrow> False"
| "float64_less x NaN \<longleftrightarrow> False"
| "float64_less x NegInf \<longleftrightarrow> False"
| "float64_less PosInf y \<longleftrightarrow> False"
| "float64_less NegInf y \<longleftrightarrow> True"
| "float64_less (Finite a) PosInf \<longleftrightarrow> True"

fun float64_le :: "float64 \<Rightarrow> float64 \<Rightarrow> bool" where
  "float64_le (Finite a) (Finite b) \<longleftrightarrow> a \<le> b"
| "float64_le NaN y \<longleftrightarrow> False"
| "float64_le x NaN \<longleftrightarrow> False"
| "float64_le NegInf y \<longleftrightarrow> True"
| "float64_le x PosInf \<longleftrightarrow> True"
| "float64_le PosInf y \<longleftrightarrow> False"
| "float64_le (Finite a) NegInf \<longleftrightarrow> False"

section \<open>Domain models (internal/models/models.go)\<close>

text \<open>
  The Go structs are records. Go's \<open>int\<close> and \<open>int64\<close> are \<open>int\<close>; strings are byte
  strings. Timestamps are natural numbers.
\<close>

definition OrderStatusCreated :: string where "OrderStatusCreated = ''created''"
definition OrderStatusPending :: string where "OrderStatusPending = ''pending''"
definition OrderStatusPaid :: string where "OrderStatusPaid = ''paid''"

definition PaymentStatusCompleted :: string where "PaymentStatusCompleted = ''completed''"

record OrderItem =
  item_ID :: int
  item_GTIN :: string
  item_Quantity :: int
  item_Price :: float64

record Order =
  order_ID :: int
  order_UserID :: int
  order_Items :: "OrderItem list"
  order_TotalAmount :: float64
  order_Status :: string
  order_PaymentID :: string
  order_CreatedAt :: nat

text \<open>
  The errors of the two \<open>Validate\<close> methods, one constructor for each
  \<open>errors.New\<close> of the source. \<open>Order.Validate\<close> wraps the error of the first bad
  item together with its position, counted from one.
\<close>

datatype item_error =
    GTINEmpty
  | QuantityNotPositive

datatype order_error =
    UserIDNotPositive
  | NoItems
  | ItemInvalid nat item_error
  | TotalNotPositive

text \<open>A Go \<open>error\<close> result is an option: \<open>None\<close> is \<open>nil\<close>.\<close>

definition OrderItem_Validate :: "OrderItem \<Rightarrow> item_error option" where
  "OrderItem_Validate oi =
     (if item_GTIN oi = [] then Some GTINEmpty
      else if item_Quantity oi \<le> 0 then Some QuantityNotPositive
      else None)"

text \<open>The loop \<open>for i, item := range o.Items\<close>, leaving at the first item in error.\<close>

fun validate_items :: "nat \<Rightarrow> OrderItem list \<Rightarrow> order_error option" where
  "validate_items i [] = None"
| "validate_items i (item # rest) =
     (case OrderItem_Validate item of
        Some err \<Rightarrow> Some (ItemInvalid (i + 1) err)
      | None \<Rightarrow> validate_items (i + 1) rest)"

definition Order_Validate :: "Order \<Rightarrow> order_error option" where
  "Order_Validate ord =
     (if order_UserID ord \<le> 0 then Some UserIDNotPositive
      else if length (order_Items ord) = 0 then Some NoItems
      else (case validate_items 0 (order_Items ord) of
              Some err \<Rightarrow> Some err
            | None \<Rightarrow>
                if float64_le (order_TotalAmount ord) (Finite 0) then Some TotalNotPositive
                else None))"

text \<open>\<open>Order.CalculateTotal\<close>: the loop adds an item only when its price is positive.\<close>

fun calculate_loop :: "float64 \<Rightarrow> OrderItem list \<Rightarrow> float64" where
  "calculate_loop acc [] = acc"
| "calculate_loop acc (item # rest) =
     calculate_loop
       (if float64_less (Finite 0) (item_Price item)
        then float64_add acc
               (float64_mul (float64_of_int (item_Quantity item)) (item_Price item))
        else acc) rest"

definition Order_CalculateTotal :: "Order \<Rightarrow> float64" where
  "Order_CalculateTotal ord = calculate_loop (Finite 0) (order_Items ord)"

section \<open>Order assembly (prepareOrder)\<close>

record GTINData =
  gd_GTIN :: string
  gd_Count :: int

text \<open>The placeholder unit price of the source, \<open>unitPrice := 100.0\<close>.\<close>

definition unitPrice :: float64 where
  "unitPrice = Finite 100"

text \<open>
  The loop of \<open>prepareOrder\<close> carries the running total and the items appended so far.
\<close>

fun prepare_loop ::
    "float64 \<Rightarrow> OrderItem list \<Rightarrow> GTINData list \<Rightarrow> float64 \<times> OrderItem list" where
  "prepare_loop totalAmount items [] = (totalAmount, items)"
| "prepare_loop totalAmount items (gtin # rest) =
     prepare_loop
       (float64_add totalAmount (float64_mul (float64_of_int (gd_Count gtin)) unitPrice))
       (items @ [\<lparr>item_ID = 0, item_GTIN = gd_GTIN gtin,
                   item_Quantity = gd_Count gtin, item_Price = unitPrice\<rparr>])
       rest"

text \<open>
  \<open>prepareOrder\<close> sets the status and the total only; every other field of the order
  keeps Go's zero value, the \<open>Items\<close> field included (the items are returned beside
  the order). The telegram id is not used by the body.
\<close>

definition prepareOrder :: "int \<Rightarrow> GTINData list \<Rightarrow> Order \<times> OrderItem list" where
  "prepareOrder telegramID gtins =
     (let (totalAmount, items) = prepare_loop (Finite 0) [] gtins
      in (\<lparr>order_ID = 0, order_UserID = 0, order_Items = [],
           order_TotalAmount = totalAmount, order_Status = OrderStatusCreated,
           order_PaymentID = [], order_CreatedAt = 0\<rparr>, items))"

section \<open>The database\<close>

text \<open>
  The repository declares its tables three times: in the SQL script
  (\<open>SQLBase/DATABASE.sql\<close>), in the \<open>createTables\<close> of the main server, and in the
  \<open>createTables\<close> of the order server. A row of the model carries the union of the
  columns; a column that a statement does not set, or that the table does not have, is
  NULL (\<open>None\<close>) when it is nullable. A table is the list of its rows in insertion
  order. An amount column holds the value the statement gives: the rounding and the
  range of \<open>DECIMAL(10, 2)\<close> are not modelled.
\<close>

record user_row =
  usr_id :: int
  usr_first_name :: "string option"
  usr_last_name :: "string option"
  usr_middle_name :: "string option"
  usr_inn :: string
  usr_telegram_id :: int
  usr_email :: string
  usr_username :: "string option"
  usr_api_key :: "string option"
  usr_registered_at :: nat
  usr_last_active :: nat

record order_row =
  ord_id :: int
  ord_user_id :: int
  ord_total_amount :: float64
  ord_status :: string
  ord_payment_id :: string
  ord_created_at :: nat
  ord_updated_at :: nat

record item_row =
  itm_id :: int
  itm_order_id :: int
  itm_gtin :: string
  itm_quantity :: int
  itm_price :: float64

record payment_row =
  pay_id :: int
  pay_user_id :: "int option"
  pay_order_id :: "int option"
  pay_amount :: float64
  pay_currency :: string
  pay_status :: string
  pay_robokassa_id :: "string option"
  pay_transaction_id :: "string option"
  pay_created_at :: nat
  pay_completed_at :: "nat option"

record kiz_request_row =
  kiz_id :: int
  kiz_telegram_id :: int
  kiz_inn :: string
  kiz_request_time :: nat
  kiz_status :: string

text \<open>The \<open>SERIAL\<close> sequences: the last value each one has handed out.\<close>

record sequences =
  users_seq :: int
  orders_seq :: int
  order_items_seq :: int
  payments_seq :: int
  kiz_requests_seq :: int

text \<open>
  The statements on \<open>payments\<close> name columns that only some of its three declarations
  have, so the database records which declaration made the table:

  \<^item> the main server's \<open>createTables\<close>: \<open>user_id\<close> and \<open>robokassa_id\<close>; no
    \<open>order_id\<close>, no \<open>transaction_id\<close>;
  \<^item> the order server's \<open>createTables\<close>: \<open>user_id\<close>, \<open>order_id\<close> and
    \<open>transaction_id\<close>; no \<open>robokassa_id\<close>;
  \<^item> the SQL script: \<open>order_id\<close> (not NULL) and \<open>transaction_id\<close>; no \<open>user_id\<close>,
    no \<open>robokassa_id\<close>; the script also installs the trigger \<open>update_order_status\<close> on
    the table.

  The script's statement \<open>RENAME COLUMN IF EXISTS robokassa_id TO transaction_id\<close>
  follows the script's own \<open>CREATE TABLE\<close>, whose table has no \<open>robokassa_id\<close>;
  it gives no table the two columns together. The model takes the trigger to be
  installed with the script's table only. No statement of the handlers gives
  \<open>transaction_id\<close> a value, so the script's UNIQUE constraint on the column refuses
  none of them.
\<close>

datatype payments_declaration =
    MainServerPayments
  | OrderServerPayments
  | ScriptPayments

definition has_user_id :: "payments_declaration \<Rightarrow> bool" where
  "has_user_id d \<longleftrightarrow> d = MainServerPayments \<or> d = OrderServerPayments"

definition has_order_id :: "payments_declaration \<Rightarrow> bool" where
  "has_order_id d \<longleftrightarrow> d = OrderServerPayments \<or> d = ScriptPayments"

definition has_robokassa_id :: "payments_declaration \<Rightarrow> bool" where
  "has_robokassa_id d \<longleftrightarrow> d = MainServerPayments"


definition has_order_status_trigger :: "payments_declaration \<Rightarrow> bool" where
  "has_order_status_trigger d \<longleftrightarrow> d = ScriptPayments"

record database =
  users :: "user_row list"
  orders :: "order_row list"
  order_items :: "item_row list"
  payments :: "payment_row list"
  payments_table :: payments_declaration
  kiz_requests :: "kiz_request_row list"
  seqs :: sequences

text \<open>
  What a database call returns to Go besides its rows. \<open>ErrNoRows\<close> is
  \<open>sql.ErrNoRows\<close>; \<open>ErrConstraint\<close> is a violation of a constraint that every
  declaration of the table has (the primary keys, the unique columns \<open>telegram_id\<close> and
  \<open>api_key\<close>, the foreign keys); \<open>ErrColumn\<close> is a statement on \<open>payments\<close> that
  names a column the table does not have; \<open>ErrScanNull\<close> is the refusal of \<open>Scan\<close>
  to store a NULL in a Go string; \<open>ErrTxDone\<close> is \<open>sql.ErrTxDone\<close>, a
  \<open>Commit\<close> when no transaction is open; \<open>ErrFault\<close> is every other failure: a
  lost connection, a check on values that only the SQL script declares (its CHECK
  constraints on amounts, quantities, lengths and statuses), or a column that one
  declaration of \<open>users\<close>, \<open>orders\<close> or \<open>order_items\<close> lacks. Each handler
  takes an oracle \<open>faults\<close> that tells, for the n-th database call of the request
  (counted from zero, \<open>Begin\<close> and \<open>Commit\<close> included), whether it fails in that
  way. A statement that fails changes nothing.
\<close>

datatype sql_error =
    ErrNoRows
  | ErrConstraint
  | ErrColumn
  | ErrScanNull
  | ErrTxDone
  | ErrFault

subsection \<open>The payment trigger and the callback's UPDATE\<close>

text \<open>
  \<open>update_order_status_on_payment\<close>, the trigger function of the SQL script, fired
  after the update of each payments row: when the row becomes \<open>completed\<close> and was
  not, the owning order goes from \<open>pending\<close> to \<open>paid\<close>. (The trigger
  \<open>update_orders_modtime\<close> sets the same \<open>updated_at\<close>.) Statuses are never NULL in
  the model.
\<close>

definition update_order_status_on_payment ::
    "nat \<Rightarrow> payment_row \<Rightarrow> payment_row \<Rightarrow> order_row list \<Rightarrow> order_row list" where
  "update_order_status_on_payment now OLD NEW os =
     (if pay_status NEW = ''completed'' \<and> pay_status OLD \<noteq> ''completed''
      then map (\<lambda>r. if Some (ord_id r) = pay_order_id NEW \<and> ord_status r = ''pending''
                      then r\<lparr>ord_status := ''paid'', ord_updated_at := now\<rparr>
                      else r) os
      else os)"

text \<open>
  The statement of \<open>robokassaCallbackHandler\<close>:
  \<^verbatim>\<open>UPDATE payments SET status = 'completed', completed_at = $1, robokassa_id = $2
  WHERE id = $3 AND status = 'pending'\<close>.
  PostgreSQL refuses it when the table has no column \<open>robokassa_id\<close>. Otherwise it
  changes the pending rows with the id, the trigger runs for each changed row where
  the trigger is installed, and the statement returns the number of rows it changed.
\<close>

definition pending_with_id :: "int \<Rightarrow> payment_row \<Rightarrow> bool" where
  "pending_with_id paymentID p \<longleftrightarrow> pay_id p = paymentID \<and> pay_status p = ''pending''"

definition set_completed :: "nat \<Rightarrow> string \<Rightarrow> payment_row \<Rightarrow> payment_row" where
  "set_completed now rid p =
     p\<lparr>pay_status := ''completed'', pay_completed_at := Some now,
       pay_robokassa_id := Some rid\<rparr>"

definition exec_complete_payment ::
    "bool \<Rightarrow> nat \<Rightarrow> string \<Rightarrow> int \<Rightarrow> database \<Rightarrow> sql_error + (database \<times> nat)" where
  "exec_complete_payment fault now rid paymentID db =
     (if fault then Inl ErrFault
      else if \<not> has_robokassa_id (payments_table db) then Inl ErrColumn
      else
        let hit = filter (pending_with_id paymentID) (payments db);
            ps = map (\<lambda>p. if pending_with_id paymentID p then set_completed now rid p else p)
                   (payments db);
            os = (if has_order_status_trigger (payments_table db)
                  then fold (\<lambda>OLD. update_order_status_on_payment now OLD
                                      (set_completed now rid OLD)) hit (orders db)
                  else orders db)
        in Inr (db\<lparr>payments := ps, orders := os\<rparr>, length hit))"

subsection \<open>Statements on users\<close>

text \<open>
  \<^verbatim>\<open>SELECT id FROM users WHERE telegram_id = $1\<close>, read with \<open>QueryRow(...).Scan\<close>:
  the first row, or \<open>sql.ErrNoRows\<close>.
\<close>

definition select_user_id_by_telegram :: "bool \<Rightarrow> int \<Rightarrow> database \<Rightarrow> sql_error + int" where
  "select_user_id_by_telegram fault telegramID db =
     (if fault then Inl ErrFault
      else
        (case filter (\<lambda>u. usr_telegram_id u = telegramID) (users db) of
           [] \<Rightarrow> Inl ErrNoRows
         | u # rest \<Rightarrow> Inr (usr_id u)))"

text \<open>\<^verbatim>\<open>SELECT EXISTS(SELECT 1 FROM users WHERE telegram_id = $1)\<close>.\<close>

definition select_user_exists :: "bool \<Rightarrow> int \<Rightarrow> database \<Rightarrow> sql_error + bool" where
  "select_user_exists fault telegramID db =
     (if fault then Inl ErrFault
      else Inr (telegramID \<in> set (map usr_telegram_id (users db))))"

text \<open>\<^verbatim>\<open>SELECT id FROM users WHERE api_key = $1\<close>; a NULL key matches nothing.\<close>

definition select_user_id_by_api_key :: "bool \<Rightarrow> string \<Rightarrow> database \<Rightarrow> sql_error + int" where
  "select_user_id_by_api_key fault apiKey db =
     (if fault then Inl ErrFault
      else
        (case filter (\<lambda>u. usr_api_key u = Some apiKey) (users db) of
           [] \<Rightarrow> Inl ErrNoRows
         | u # rest \<Rightarrow> Inr (usr_id u)))"

text \<open>\<^verbatim>\<open>UPDATE users SET last_active = $1 WHERE id = $2\<close>.\<close>

definition update_last_active :: "bool \<Rightarrow> nat \<Rightarrow> int \<Rightarrow> database \<Rightarrow> sql_error + database" where
  "update_last_active fault now userID db =
     (if fault then Inl ErrFault
      else Inr (db\<lparr>users := map (\<lambda>u. if usr_id u = userID then u\<lparr>usr_last_active := now\<rparr>
                                       else u) (users db)\<rparr>))"

text \<open>
  \<^verbatim>\<open>UPDATE users SET inn = $1, email = $2, last_active = $3, api_key = $4
  WHERE telegram_id = $5 RETURNING id\<close>, read with \<open>Scan\<close>. The new key must not
  be the key of another row.
\<close>

definition update_user_registration ::
    "bool \<Rightarrow> string \<Rightarrow> string \<Rightarrow> nat \<Rightarrow> string \<Rightarrow> int \<Rightarrow> database \<Rightarrow>
     sql_error + (database \<times> int)" where
  "update_user_registration fault inn email now apiKey telegramID db =
     (if fault then Inl ErrFault
      else
        (case filter (\<lambda>u. usr_telegram_id u = telegramID) (users db) of
           [] \<Rightarrow> Inl ErrNoRows
         | u # rest \<Rightarrow>
             if rest \<noteq> []
                \<or> Some apiKey \<in> set (map usr_api_key
                     (filter (\<lambda>u. usr_telegram_id u \<noteq> telegramID) (users db)))
             then Inl ErrConstraint
             else
               Inr (db\<lparr>users :=
                      map (\<lambda>u. if usr_telegram_id u = telegramID
                                then u\<lparr>usr_inn := inn, usr_email := email,
                                       usr_last_active := now, usr_api_key := Some apiKey\<rparr>
                                else u) (users db)\<rparr>,
                    usr_id u)))"

text \<open>
  The two INSERT statements into \<open>users\<close> (of \<open>registerUserHandler\<close> and of
  \<open>createUserTx\<close>) differ in the columns they give; both return the new id. The row
  is given with the columns of the statement; the id comes from the sequence and the
  two timestamps default to the current time. The sequences of the model are restored
  by a failure or a rollback, those of PostgreSQL are not; only the ids of later rows
  could tell.
\<close>

definition insert_user :: "bool \<Rightarrow> nat \<Rightarrow> user_row \<Rightarrow> database \<Rightarrow> sql_error + (database \<times> int)" where
  "insert_user fault now u db =
     (if fault then Inl ErrFault
      else
        let newID = users_seq (seqs db) + 1;
            row = u\<lparr>usr_id := newID, usr_registered_at := now, usr_last_active := now\<rparr>
        in
          if newID \<in> set (map usr_id (users db))
             \<or> usr_telegram_id u \<in> set (map usr_telegram_id (users db))
             \<or> (usr_api_key u \<noteq> None \<and> usr_api_key u \<in> set (map usr_api_key (users db)))
          then Inl ErrConstraint
          else Inr (db\<lparr>users := users db @ [row],
                        seqs := (seqs db)\<lparr>users_seq := newID\<rparr>\<rparr>, newID))"

subsection \<open>Statements on orders and their items\<close>

text \<open>
  \<^verbatim>\<open>INSERT INTO orders (user_id, total_amount, status, payment_id)
  VALUES ($1, $2, $3, $4) RETURNING id, created_at\<close>.
\<close>

definition insert_order :: "bool \<Rightarrow> nat \<Rightarrow> Order \<Rightarrow> database \<Rightarrow> sql_error + (database \<times> int)" where
  "insert_order fault now ord db =
     (if fault then Inl ErrFault
      else
        let newID = orders_seq (seqs db) + 1 in
          if newID \<in> set (map ord_id (orders db))
             \<or> order_UserID ord \<notin> set (map usr_id (users db))
          then Inl ErrConstraint
          else
            Inr (db\<lparr>orders := orders db @
                       [\<lparr>ord_id = newID, ord_user_id = order_UserID ord,
                         ord_total_amount = order_TotalAmount ord,
                         ord_status = order_Status ord,
                         ord_payment_id = order_PaymentID ord,
                         ord_created_at = now, ord_updated_at = now\<rparr>],
                     seqs := (seqs db)\<lparr>orders_seq := newID\<rparr>\<rparr>, newID))"

text \<open>
  \<^verbatim>\<open>INSERT INTO order_items (order_id, gtin, quantity, price) VALUES ($1, $2, $3, $4)\<close>.
\<close>

definition insert_order_item :: "bool \<Rightarrow> int \<Rightarrow> OrderItem \<Rightarrow> database \<Rightarrow> sql_error + database" where
  "insert_order_item fault orderID item db =
     (if fault then Inl ErrFault
      else
        let newID = order_items_seq (seqs db) + 1 in
          if newID \<in> set (map itm_id (order_items db))
             \<or> orderID \<notin> set (map ord_id (orders db))
          then Inl ErrConstraint
          else
            Inr (db\<lparr>order_items := order_items db @
                       [\<lparr>itm_id = newID, itm_order_id = orderID,
                         itm_gtin = item_GTIN item, itm_quantity = item_Quantity item,
                         itm_price = item_Price item\<rparr>],
                     seqs := (seqs db)\<lparr>order_items_seq := newID\<rparr>\<rparr>))"

subsection \<open>Statements on payments and code requests\<close>

text \<open>
  The INSERT of \<open>createPaymentHandler\<close>:
  \<^verbatim>\<open>INSERT INTO payments (user_id, amount, status) VALUES ($1, $2, 'pending')
  RETURNING id\<close>.
  It needs the column \<open>user_id\<close>. Every other column of the row has its default.
\<close>

definition insert_user_payment ::
    "bool \<Rightarrow> nat \<Rightarrow> int \<Rightarrow> float64 \<Rightarrow> database \<Rightarrow>
     sql_error + (database \<times> payment_row)" where
  "insert_user_payment fault now userID amount db =
     (if fault then Inl ErrFault
      else if \<not> has_user_id (payments_table db) then Inl ErrColumn
      else
        let newID = payments_seq (seqs db) + 1;
            row = \<lparr>pay_id = newID, pay_user_id = Some userID, pay_order_id = None,
                   pay_amount = amount, pay_currency = ''RUB'', pay_status = ''pending'',
                   pay_robokassa_id = None, pay_transaction_id = None,
                   pay_created_at = now, pay_completed_at = None\<rparr>
        in
          if newID \<in> set (map pay_id (payments db))
             \<or> userID \<notin> set (map usr_id (users db))
          then Inl ErrConstraint
          else Inr (db\<lparr>payments := payments db @ [row],
                        seqs := (seqs db)\<lparr>payments_seq := newID\<rparr>\<rparr>, row))"


text \<open>
  \<^verbatim>\<open>INSERT INTO kiz_requests (telegram_id, inn, request_time) VALUES ($1, $2, $3)\<close>.
\<close>

definition insert_kiz_request :: "bool \<Rightarrow> int \<Rightarrow> string \<Rightarrow> nat \<Rightarrow> database \<Rightarrow> sql_error + database" where
  "insert_kiz_request fault telegramID inn now db =
     (if fault then Inl ErrFault
      else
        let newID = kiz_requests_seq (seqs db) + 1 in
          if newID \<in> set (map kiz_id (kiz_requests db)) then Inl ErrConstraint
          else
            Inr (db\<lparr>kiz_requests := kiz_requests db @
                       [\<lparr>kiz_id = newID, kiz_telegram_id = telegramID, kiz_inn = inn,
                         kiz_request_time = now, kiz_status = ''pending''\<rparr>],
                     seqs := (seqs db)\<lparr>kiz_requests_seq := newID\<rparr>\<rparr>))"

section \<open>HTTP replies\<close>

text \<open>
  The texts of the replies are Russian in the source; each is a constructor here, named
  by its meaning. \<open>Text\<close> is a plain-text reply of \<open>http.Error\<close>, \<open>Written\<close> the
  bytes given to \<open>w.Write\<close>, the others are the JSON objects the handlers encode.
\<close>

datatype message =
    MethodNotSupported
  | BadParameters
  | BadSignature
  | BadPaymentID
  | PaymentUpdateFailed
  | BadRequestFormat
  | BadAmount
  | UserNotFound
  | RequestFailed
  | PaymentCreateFailed
  | RequiredFieldsMissing
  | SaveFailed
  | TransactionFailed
  | RegistrationFailed
  | CommitFailed
  | DatabaseError
  | OrderCreateFailed
  | NotAuthorized
  | UserNotAuthorized
  | PDFFailed

datatype body =
    Text message
  | Written string
  | JsonError message
  | JsonUser int string
  | JsonPayment int string
  | JsonOrder int string "string list"
  | JsonKIZ "string list" string

record response =
  status_code :: nat
  body :: body

section \<open>Numbers in text\<close>

text \<open>
  \<open>strconv.Atoi\<close>: an optional sign, then at least one decimal digit and nothing
  else; the value must fit Go's 64-bit \<open>int\<close>. \<open>None\<close> is the error result.
\<close>

definition digit_value :: "char \<Rightarrow> int option" where
  "digit_value c =
     (let n = (of_char c :: int) in if 48 \<le> n \<and> n \<le> 57 then Some (n - 48) else None)"

fun parse_digits :: "int \<Rightarrow> string \<Rightarrow> int option" where
  "parse_digits n [] = Some n"
| "parse_digits n (c # cs) =
     (case digit_value c of
        None \<Rightarrow> None
      | Some d \<Rightarrow> parse_digits (n * 10 + d) cs)"

definition Atoi :: "string \<Rightarrow> int option" where
  "Atoi s =
     (case s of
        [] \<Rightarrow> None
      | c # cs \<Rightarrow>
          let ds = (if c = CHR ''-'' \<or> c = CHR ''+'' then cs else s) in
          if ds = [] then None
          else
            (case parse_digits 0 ds of
               None \<Rightarrow> None
             | Some n \<Rightarrow>
                 let v = (if c = CHR ''-'' then - n else n) in
                 if - 9223372036854775808 \<le> v \<and> v \<le> 9223372036854775807
                 then Some v else None))"

text \<open>The verb \<open>%d\<close> of \<open>fmt\<close> on an \<open>int\<close>: the decimal digits, after a minus sign
  for a negative number.\<close>

definition digit_char :: "nat \<Rightarrow> char" where
  "digit_char n = ''0123456789'' ! n"

function decimal :: "nat \<Rightarrow> string" where
  "decimal n = (if n < 10 then [digit_char n] else decimal (n div 10) @ [digit_char (n mod 10)])"
  by pat_completeness auto
termination
  by (relation "measure (\<lambda>n. n)") auto

definition fmt_d :: "int \<Rightarrow> string" where
  "fmt_d i = (if i < 0 then CHR ''-'' # decimal (nat (- i)) else decimal (nat i))"

text \<open>\<open>strings.HasPrefix\<close>.\<close>

definition HasPrefix :: "string \<Rightarrow> string \<Rightarrow> bool" where
  "HasPrefix s pre \<longleftrightarrow> take (length pre) s = pre"

section \<open>The payment callback (robokassaCallbackHandler)\<close>

record PaymentConfig =
  RobokassaLogin :: string
  RobokassaPass :: string

text \<open>
  The request after \<open>r.ParseForm()\<close>: the method and the form values the handler
  reads (\<open>FormValue\<close> gives the empty string for an absent key).
\<close>

record callback_request =
  cb_Method :: string
  cb_InvId :: string
  cb_OutSum :: string
  cb_SignatureValue :: string
  cb_Shp_TransactionId :: string

text \<open>The string the gateway signs: \<open>merchantLogin:OutSum:InvId:password\<close>.\<close>

definition callback_signature :: "PaymentConfig \<Rightarrow> string \<Rightarrow> string \<Rightarrow> string" where
  "callback_signature rk outSum invID =
     RobokassaLogin rk @ '':'' @ outSum @ '':'' @ invID @ '':'' @ RobokassaPass rk"

text \<open>
  The handler. \<open>sha1_hex\<close> stands for the library call
  \<open>fmt.Sprintf("%x", sha1.Sum([]byte(s)))\<close>, \<open>now\<close> for \<open>time.Now()\<close>. The
  result of the UPDATE is dropped by the source (\<open>_, err = db.Exec\<close>): only an error
  changes the reply.
\<close>

definition robokassaCallbackHandler ::
    "(string \<Rightarrow> string) \<Rightarrow> PaymentConfig \<Rightarrow> nat \<Rightarrow> (nat \<Rightarrow> bool) \<Rightarrow>
     database \<Rightarrow> callback_request \<Rightarrow> database \<times> response" where
  "robokassaCallbackHandler sha1_hex rk now faults db r =
     (if cb_Method r \<noteq> ''POST'' \<and> cb_Method r \<noteq> ''GET''
      then (db, \<lparr>status_code = 405, body = Text MethodNotSupported\<rparr>)
      else
        let invID = cb_InvId r; outSum = cb_OutSum r; signValue = cb_SignatureValue r in
        if invID = [] \<or> outSum = [] \<or> signValue = []
        then (db, \<lparr>status_code = 400, body = Text BadParameters\<rparr>)
        else
          let expectedSign = sha1_hex (callback_signature rk outSum invID) in
          if signValue \<noteq> expectedSign
          then (db, \<lparr>status_code = 403, body = Text BadSignature\<rparr>)
          else
            (case Atoi invID of
               None \<Rightarrow> (db, \<lparr>status_code = 400, body = Text BadPaymentID\<rparr>)
             | Some paymentID \<Rightarrow>
                 (case exec_complete_payment (faults 0) now (cb_Shp_TransactionId r)
                         paymentID db of
                    Inl err \<Rightarrow>
                      (db, \<lparr>status_code = 500, body = Text PaymentUpdateFailed\<rparr>)
                  | Inr (db', affected) \<Rightarrow>
                      (db', \<lparr>status_code = 200, body = Written (''OK'' @ invID)\<rparr>))))"

section \<open>Registration (registerUserHandler)\<close>

record UserRegistrationRequest =
  ur_TelegramID :: int
  ur_INN :: string
  ur_Email :: string

text \<open>
  A request body is an option: \<open>None\<close> is a body that \<open>json.Decode\<close> refuses.
  \<open>apiKey\<close> is the result of \<open>generateAPIKey()\<close>: sixteen random bytes in
  hexadecimal, or the empty string when the random source fails. The calls of the
  database are numbered: 0 is the SELECT, 1 the UPDATE or the INSERT.
\<close>

definition registerUserHandler ::
    "string \<Rightarrow> nat \<Rightarrow> (nat \<Rightarrow> bool) \<Rightarrow> database \<Rightarrow> string \<Rightarrow>
     UserRegistrationRequest option \<Rightarrow> database \<times> response" where
  "registerUserHandler apiKey now faults db httpMethod decoded =
     (if httpMethod \<noteq> ''POST''
      then (db, \<lparr>status_code = 405, body = Text MethodNotSupported\<rparr>)
      else
        (case decoded of
           None \<Rightarrow> (db, \<lparr>status_code = 400, body = JsonError BadRequestFormat\<rparr>)
         | Some request \<Rightarrow>
             if ur_TelegramID request \<le> 0 \<or> ur_INN request = []
             then (db, \<lparr>status_code = 400, body = JsonError RequiredFieldsMissing\<rparr>)
             else
               (case select_user_exists (faults 0) (ur_TelegramID request) db of
                  Inl err \<Rightarrow> (db, \<lparr>status_code = 500, body = JsonError RequestFailed\<rparr>)
                | Inr found \<Rightarrow>
                    (case (if found
                           then update_user_registration (faults 1) (ur_INN request)
                                  (ur_Email request) now apiKey (ur_TelegramID request) db
                           else insert_user (faults 1) now
                                  \<lparr>usr_id = 0, usr_first_name = None, usr_last_name = None,
                                   usr_middle_name = None, usr_inn = ur_INN request,
                                   usr_telegram_id = ur_TelegramID request,
                                   usr_email = ur_Email request, usr_username = None,
                                   usr_api_key = Some apiKey, usr_registered_at = now,
                                   usr_last_active = now\<rparr> db) of
                       Inl err \<Rightarrow> (db, \<lparr>status_code = 500, body = JsonError SaveFailed\<rparr>)
                     | Inr (db', userID) \<Rightarrow>
                         (db', \<lparr>status_code = 200, body = JsonUser userID apiKey\<rparr>)))))"

section \<open>Payment creation (createPaymentHandler)\<close>

text \<open>
  The amount of a decoded request is a finite \<open>float64\<close> (\<open>json.Decode\<close> refuses a
  number out of its range); the type has the infinities and NaN as well.
\<close>

record PaymentRequest =
  pr_TelegramID :: int
  pr_Amount :: float64
  pr_ReturnURL :: string

text \<open>
  The description that the redirect URL carries after \<open>Desc=\<close>: two Russian words
  ("payment for services"), as the bytes of their UTF-8 encoding.
\<close>

definition payment_description :: string where
  "payment_description =
     [CHR 0xD0, CHR 0x9E, CHR 0xD0, CHR 0xBF, CHR 0xD0, CHR 0xBB, CHR 0xD0, CHR 0xB0,
      CHR 0xD1, CHR 0x82, CHR 0xD0, CHR 0xB0, CHR 0x20, CHR 0xD1, CHR 0x83, CHR 0xD1,
      CHR 0x81, CHR 0xD0, CHR 0xBB, CHR 0xD1, CHR 0x83, CHR 0xD0, CHR 0xB3]"

text \<open>
  \<open>fmt_g\<close> stands for the verb \<open>%g\<close> of \<open>fmt\<close> on the amount, \<open>sha1_hex\<close> for
  the hexadecimal SHA-1 digest. The calls of the database: 0 is the SELECT of the user,
  1 the INSERT of the payment. The return URL of the request is given a default and is
  not used further.
\<close>

definition createPaymentHandler ::
    "(string \<Rightarrow> string) \<Rightarrow> (float64 \<Rightarrow> string) \<Rightarrow> PaymentConfig \<Rightarrow> nat \<Rightarrow> (nat \<Rightarrow> bool) \<Rightarrow>
     database \<Rightarrow> string \<Rightarrow> PaymentRequest option \<Rightarrow> database \<times> response" where
  "createPaymentHandler sha1_hex fmt_g rk now faults db httpMethod decoded =
     (if httpMethod \<noteq> ''POST''
      then (db, \<lparr>status_code = 405, body = Text MethodNotSupported\<rparr>)
      else
        (case decoded of
           None \<Rightarrow> (db, \<lparr>status_code = 400, body = JsonError BadRequestFormat\<rparr>)
         | Some request \<Rightarrow>
             if float64_le (pr_Amount request) (Finite 0)
             then (db, \<lparr>status_code = 400, body = JsonError BadAmount\<rparr>)
             else
               (case select_user_id_by_telegram (faults 0) (pr_TelegramID request) db of
                  Inl ErrNoRows \<Rightarrow>
                    (db, \<lparr>status_code = 404, body = JsonError UserNotFound\<rparr>)
                | Inl err \<Rightarrow> (db, \<lparr>status_code = 500, body = JsonError RequestFailed\<rparr>)
                | Inr userID \<Rightarrow>
                    (case insert_user_payment (faults 1) now userID (pr_Amount request) db of
                       Inl err \<Rightarrow>
                         (db, \<lparr>status_code = 500, body = JsonError PaymentCreateFailed\<rparr>)
                     | Inr (db', row) \<Rightarrow>
                         let paymentID = pay_id row;
                             returnURL = (if pr_ReturnURL request = []
                                          then ''https://t.me/your_bot''
                                          else pr_ReturnURL request);
                             signature = RobokassaLogin rk @ '':'' @ fmt_g (pr_Amount request)
                               @ '':'' @ fmt_d paymentID @ '':'' @ RobokassaPass rk;
                             signatureHash = sha1_hex signature;
                             redirectURL =
                               ''https://auth.robokassa.ru/Merchant/Index.aspx?MerchantLogin=''
                               @ RobokassaLogin rk @ ''&OutSum='' @ fmt_g (pr_Amount request)
                               @ ''&InvId='' @ fmt_d paymentID
                               @ ''&SignatureValue='' @ signatureHash
                               @ ''&Desc='' @ payment_description @ ''&Culture=ru''
                         in (db', \<lparr>status_code = 200,
                                   body = JsonPayment paymentID redirectURL\<rparr>)))))"

section \<open>Code requests (kizHandler)\<close>

record KIZRequest =
  kq_TelegramID :: int
  kq_GTINs :: "string list"
  kq_INN :: string

text \<open>
  The codes are the two fixed strings of the source. \<open>pdf\<close> stands for
  \<open>generateKIZPDF\<close>, which writes a file: it gives the file's name, or \<open>None\<close>
  for an error. The failure of the INSERT (database call 0) is logged and nothing more.
\<close>

definition kizHandler ::
    "(string list \<Rightarrow> string option) \<Rightarrow> nat \<Rightarrow> (nat \<Rightarrow> bool) \<Rightarrow> database \<Rightarrow> string \<Rightarrow>
     KIZRequest option \<Rightarrow> database \<times> response" where
  "kizHandler pdf now faults db httpMethod decoded =
     (if httpMethod \<noteq> ''POST''
      then (db, \<lparr>status_code = 405, body = Text MethodNotSupported\<rparr>)
      else
        (case decoded of
           None \<Rightarrow> (db, \<lparr>status_code = 400, body = JsonError BadRequestFormat\<rparr>)
         | Some request \<Rightarrow>
             if kq_TelegramID request \<le> 0 \<or> length (kq_GTINs request) = 0
                \<or> kq_INN request = []
             then (db, \<lparr>status_code = 400, body = JsonError RequiredFieldsMissing\<rparr>)
             else
               let kizs = [''KIZ123456'', ''KIZ789012''];
                   db' = (case insert_kiz_request (faults 0) (kq_TelegramID request)
                                 (kq_INN request) now db of
                            Inl err \<Rightarrow> db
                          | Inr d \<Rightarrow> d)
               in
                 (case pdf kizs of
                    None \<Rightarrow> (db', \<lparr>status_code = 500, body = JsonError PDFFailed\<rparr>)
                  | Some filename \<Rightarrow>
                      (db', \<lparr>status_code = 200, body = JsonKIZ kizs filename\<rparr>))))"

section \<open>Authorisation (authMiddleware)\<close>

text \<open>
  What the middleware reads of a request: the path and the header \<open>X-API-Key\<close>
  (\<open>Header.Get\<close> gives the empty string for an absent header).
\<close>

record auth_request =
  ar_Path :: string
  ar_APIKey :: string

definition publicPaths :: "string list" where
  "publicPaths = [''/health'', ''/api/users/register'', ''/api/payments/callback'', ''/docs/'']"

text \<open>
  The middleware either hands the request to the next handler, with the user id it has
  put in the context if any, or answers by itself. The calls of the database: 0 is the
  SELECT by key, 1 the UPDATE of \<open>last_active\<close>, whose failure is only logged.
\<close>

datatype auth_outcome =
    Forwarded "int option"
  | Answered response

definition authMiddleware ::
    "nat \<Rightarrow> (nat \<Rightarrow> bool) \<Rightarrow> database \<Rightarrow> auth_request \<Rightarrow> database \<times> auth_outcome" where
  "authMiddleware now faults db r =
     (if ar_Path r \<in> set publicPaths \<or> HasPrefix (ar_Path r) ''/docs/''
      then (db, Forwarded None)
      else
        let apiKey = ar_APIKey r in
        if apiKey = [] then (db, Forwarded None)
        else
          (case select_user_id_by_api_key (faults 0) apiKey db of
             Inl err \<Rightarrow> (db, Answered \<lparr>status_code = 401, body = Text NotAuthorized\<rparr>)
           | Inr userID \<Rightarrow>
               let db' = (case update_last_active (faults 1) now userID db of
                            Inl err \<Rightarrow> db
                          | Inr d \<Rightarrow> d)
               in (db', Forwarded (Some userID))))"

section \<open>The order server (the Go program stored with the SQL script)\<close>

text \<open>
  This program works in transactions. The session of a handler with the database is
  what is committed, which is what every other connection and the outside world can
  see, and whether the handler holds a transaction open. \<open>Begin\<close> opens the
  transaction and gives the handler a working copy of the committed database; the
  statements change the copy; \<open>Commit\<close> makes the copy the committed database and
  closes the transaction; \<open>Rollback\<close> closes the transaction and drops the copy,
  and does nothing when no transaction is open. Each handler defers
  \<open>tx.Rollback()\<close> right after \<open>Begin\<close>, so every return after \<open>Begin\<close> ends
  with \<open>Rollback\<close>. A handler of the model returns the committed database of the
  session it ends with. One request is served at a time.
\<close>

record session =
  committed :: database
  in_tx :: bool

definition Begin :: "bool \<Rightarrow> database \<Rightarrow> sql_error + (session \<times> database)" where
  "Begin fault db =
     (if fault then Inl ErrFault else Inr (\<lparr>committed = db, in_tx = True\<rparr>, db))"

definition Commit :: "bool \<Rightarrow> session \<Rightarrow> database \<Rightarrow> sql_error + session" where
  "Commit fault s tx =
     (if \<not> in_tx s then Inl ErrTxDone
      else if fault then Inl ErrFault
      else Inr \<lparr>committed = tx, in_tx = False\<rparr>)"

definition Rollback :: "session \<Rightarrow> session" where
  "Rollback s = s\<lparr>in_tx := False\<rparr>"

subsection \<open>Registration (handleUserRegistration, createUserTx)\<close>

record RegistrationRequest =
  rr_FirstName :: string
  rr_LastName :: string
  rr_MiddleName :: string
  rr_INN :: string
  rr_TelegramID :: int
  rr_Email :: string
  rr_Username :: string

definition createUserTx :: "bool \<Rightarrow> nat \<Rightarrow> user_row \<Rightarrow> database \<Rightarrow> sql_error + (database \<times> int)" where
  "createUserTx fault now user tx = insert_user fault now user tx"

text \<open>
  The calls of the database: 0 is \<open>Begin\<close>, 1 the INSERT, 2 \<open>Commit\<close>. \<open>apiKey\<close>
  is the result of \<open>generateRandomAPIKey()\<close>.
\<close>

definition handleUserRegistration ::
    "string \<Rightarrow> nat \<Rightarrow> (nat \<Rightarrow> bool) \<Rightarrow> database \<Rightarrow> string \<Rightarrow>
     RegistrationRequest option \<Rightarrow> database \<times> response" where
  "handleUserRegistration apiKey now faults db httpMethod decoded =
     (if httpMethod \<noteq> ''POST''
      then (db, \<lparr>status_code = 405, body = Text MethodNotSupported\<rparr>)
      else
        (case decoded of
           None \<Rightarrow> (db, \<lparr>status_code = 400, body = JsonError BadRequestFormat\<rparr>)
         | Some request \<Rightarrow>
             if rr_TelegramID request \<le> 0 \<or> rr_INN request = []
             then (db, \<lparr>status_code = 400, body = JsonError RequiredFieldsMissing\<rparr>)
             else
               (case Begin (faults 0) db of
                  Inl err \<Rightarrow>
                    (db, \<lparr>status_code = 500, body = JsonError TransactionFailed\<rparr>)
                | Inr (s, tx) \<Rightarrow>
                    let user = \<lparr>usr_id = 0, usr_first_name = Some (rr_FirstName request),
                                usr_last_name = Some (rr_LastName request),
                                usr_middle_name = Some (rr_MiddleName request),
                                usr_inn = rr_INN request,
                                usr_telegram_id = rr_TelegramID request,
                                usr_email = rr_Email request,
                                usr_username = Some (rr_Username request),
                                usr_api_key = Some apiKey, usr_registered_at = 0,
                                usr_last_active = now\<rparr>
                    in
                      (case createUserTx (faults 1) now user tx of
                         Inl err \<Rightarrow>
                           (committed (Rollback s),
                            \<lparr>status_code = 500, body = JsonError RegistrationFailed\<rparr>)
                       | Inr (tx', userID) \<Rightarrow>
                           (case Commit (faults 2) s tx' of
                              Inl err \<Rightarrow>
                                (committed (Rollback s),
                                 \<lparr>status_code = 500, body = JsonError CommitFailed\<rparr>)
                            | Inr s' \<Rightarrow>
                                (committed (Rollback s'),
                                 \<lparr>status_code = 201, body = JsonUser userID apiKey\<rparr>))))))"

subsection \<open>Orders (handleKIZRequest, getUserID, createOrderTx)\<close>

text \<open>\<open>getUserID\<close> turns \<open>sql.ErrNoRows\<close> into the id 0 without an error.\<close>

definition getUserID :: "bool \<Rightarrow> int \<Rightarrow> database \<Rightarrow> sql_error + int" where
  "getUserID fault telegramID tx =
     (case select_user_id_by_telegram fault telegramID tx of
        Inl ErrNoRows \<Rightarrow> Inr 0
      | Inl err \<Rightarrow> Inl err
      | Inr userID \<Rightarrow> Inr userID)"

text \<open>
  The loop of \<open>createOrderTx\<close> over the items; \<open>k\<close> is the number of the database
  call that inserts the next item.
\<close>

fun insert_items ::
    "(nat \<Rightarrow> bool) \<Rightarrow> nat \<Rightarrow> int \<Rightarrow> OrderItem list \<Rightarrow> database \<Rightarrow> sql_error + database" where
  "insert_items faults k orderID [] tx = Inr tx"
| "insert_items faults k orderID (item # rest) tx =
     (case insert_order_item (faults k) orderID item tx of
        Inl err \<Rightarrow> Inl err
      | Inr tx' \<Rightarrow> insert_items faults (k + 1) orderID rest tx')"

text \<open>
  \<open>createOrderTx\<close> inserts the header, stores the new id and the creation time in the
  order, and inserts the items under that id. \<open>k\<close> is the number of its first database
  call.
\<close>

definition createOrderTx ::
    "(nat \<Rightarrow> bool) \<Rightarrow> nat \<Rightarrow> nat \<Rightarrow> database \<Rightarrow> Order \<Rightarrow> OrderItem list \<Rightarrow>
     sql_error + (database \<times> Order)" where
  "createOrderTx faults k now tx ord items =
     (case insert_order (faults k) now ord tx of
        Inl err \<Rightarrow> Inl err
      | Inr (tx', newID) \<Rightarrow>
          (case insert_items faults (k + 1) newID items tx' of
             Inl err \<Rightarrow> Inl err
           | Inr tx'' \<Rightarrow> Inr (tx'', ord\<lparr>order_ID := newID, order_CreatedAt := now\<rparr>)))"

text \<open>
  The external code service is outside the program: what a call of it returns may
  depend on the moment of the call. The model gives the service the session of the
  handler at that moment (what is committed, and whether a transaction is open)
  together with the arguments of the source. The stub of the source gives two fixed
  codes and no error. The second component of a result tells whether the call failed.
\<close>

type_synonym external_service = "session \<Rightarrow> GTINData list \<Rightarrow> string \<Rightarrow> string list \<times> bool"

definition requestKIZFromExternalAPI :: external_service where
  "requestKIZFromExternalAPI s gtins inn = ([''KIZ123456'', ''KIZ789012''], False)"

record KIZOrderRequest =
  ko_TelegramID :: int
  ko_GTINs :: "GTINData list"
  ko_INN :: string

text \<open>
  A summary of the path a request took through \<open>handleKIZRequest\<close>, returned beside
  the database and the reply. \<open>TxWork\<close> is the statements of the transaction,
  \<open>DeferredRollback\<close> the deferred call of \<open>tx.Rollback()\<close> when the handler
  returns.
\<close>

datatype event =
    TxBegin
  | TxWork
  | TxCommit
  | ExternalCall
  | Reply
  | DeferredRollback

text \<open>
  The handler takes the external service as a parameter \<open>ext\<close> (the source calls
  \<open>requestKIZFromExternalAPI\<close>). The calls of the database: 0 is \<open>Begin\<close>, 1 the
  SELECT of the user, 2 the INSERT of the order, 3 and the following the INSERTs of the
  items, and \<open>Commit\<close> comes after them. The handler makes no check of the decoded
  request.
\<close>

definition handleKIZRequest ::
    "external_service \<Rightarrow> nat \<Rightarrow> (nat \<Rightarrow> bool) \<Rightarrow>
     database \<Rightarrow> KIZOrderRequest option \<Rightarrow> database \<times> response \<times> event list" where
  "handleKIZRequest ext now faults db decoded =
     (case decoded of
        None \<Rightarrow> (db, \<lparr>status_code = 400, body = JsonError BadRequestFormat\<rparr>, [Reply])
      | Some request \<Rightarrow>
          (case Begin (faults 0) db of
             Inl err \<Rightarrow>
               (db, \<lparr>status_code = 500, body = JsonError TransactionFailed\<rparr>, [Reply])
           | Inr (s, tx) \<Rightarrow>
               (case getUserID (faults 1) (ko_TelegramID request) tx of
                  Inl err \<Rightarrow>
                    (committed (Rollback s),
                     \<lparr>status_code = 500, body = JsonError DatabaseError\<rparr>,
                     [TxBegin, TxWork, Reply, DeferredRollback])
                | Inr userID \<Rightarrow>
                    if userID = 0
                    then (committed (Rollback s),
                          \<lparr>status_code = 401, body = JsonError UserNotFound\<rparr>,
                          [TxBegin, TxWork, Reply, DeferredRollback])
                    else
                      let (ord0, items) =
                            prepareOrder (ko_TelegramID request) (ko_GTINs request);
                          ord1 = ord0\<lparr>order_UserID := userID\<rparr>
                      in
                        (case createOrderTx faults 2 now tx ord1 items of
                           Inl err \<Rightarrow>
                             (committed (Rollback s),
                              \<lparr>status_code = 500, body = JsonError OrderCreateFailed\<rparr>,
                              [TxBegin, TxWork, Reply, DeferredRollback])
                         | Inr (tx', ord2) \<Rightarrow>
                             (case Commit (faults (3 + length items)) s tx' of
                                Inl err \<Rightarrow>
                                  (committed (Rollback s),
                                   \<lparr>status_code = 500, body = JsonError CommitFailed\<rparr>,
                                   [TxBegin, TxWork, Reply, DeferredRollback])
                              | Inr s' \<Rightarrow>
                                  let (kizs, failed) =
                                        ext s' (ko_GTINs request) (ko_INN request)
                                  in (committed (Rollback s'),
                                      \<lparr>status_code = 201,
                                       body = JsonOrder (order_ID ord2) ''created'' kizs\<rparr>,
                                      [TxBegin, TxWork, TxCommit, ExternalCall, Reply,
                                       DeferredRollback]))))))"

subsection \<open>Payments (handlePayment)\<close>





section \<open>The gateway adapter (createPayment)\<close>

text \<open>The two settings of the third program's \<open>Config\<close> that \<open>createPayment\<close> reads.\<close>

record Config =
  cfg_RobokassaLogin :: string
  cfg_RobokassaPassword :: string

record PaymentRequestData =
  prd_Amount :: float64
  prd_OrderID :: string

datatype payment_note =
    IncorrectAmount
  | OrderIDNotGiven
  | OperationCancelled
  | URLFormed

record PaymentResponse =
  resp_Status :: string
  resp_Message :: payment_note
  resp_PaymentURL :: string

datatype payment_error =
    AmountNotPositive
  | OrderIDMissing
  | ContextDone

text \<open>
  \<open>createPayment\<close> returns a response and an error (\<open>None\<close> is \<open>nil\<close>).
  \<open>cancelled\<close> tells whether the context is done when the function looks at it;
  \<open>sha256_hex\<close> stands for the hexadecimal SHA-256 digest, \<open>fmt_g\<close> for the verb
  \<open>%g\<close>.
\<close>

definition createPayment ::
    "(string \<Rightarrow> string) \<Rightarrow> (float64 \<Rightarrow> string) \<Rightarrow> Config \<Rightarrow> bool \<Rightarrow> PaymentRequestData \<Rightarrow>
     PaymentResponse \<times> payment_error option" where
  "createPayment sha256_hex fmt_g config cancelled requestData =
     (if float64_le (prd_Amount requestData) (Finite 0)
      then (\<lparr>resp_Status = ''error'', resp_Message = IncorrectAmount, resp_PaymentURL = []\<rparr>,
            Some AmountNotPositive)
      else if prd_OrderID requestData = []
      then (\<lparr>resp_Status = ''error'', resp_Message = OrderIDNotGiven, resp_PaymentURL = []\<rparr>,
            Some OrderIDMissing)
      else if cancelled
      then (\<lparr>resp_Status = ''error'', resp_Message = OperationCancelled,
             resp_PaymentURL = []\<rparr>, Some ContextDone)
      else
        let signatureStr = cfg_RobokassaLogin config @ '':'' @ fmt_g (prd_Amount requestData)
              @ '':'' @ prd_OrderID requestData @ '':'' @ cfg_RobokassaPassword config;
            signature = sha256_hex signatureStr;
            paymentURL =
              ''https://auth.robokassa.ru/Merchant/Index.aspx?MerchantLogin=''
              @ cfg_RobokassaLogin config @ ''&OutSum='' @ fmt_g (prd_Amount requestData)
              @ ''&InvId='' @ prd_OrderID requestData @ ''&SignatureValue='' @ signature
        in (\<lparr>resp_Status = ''success'', resp_Message = URLFormed,
              resp_PaymentURL = paymentURL\<rparr>, None))"

section \<open>Example data\<close>

text \<open>
  The hash is a parameter of the handlers; the examples run them with a symbolic digest,
  the text \<open>sha1(s)\<close> for the digest of \<open>s\<close>.
\<close>

definition example_digest :: "string \<Rightarrow> string" where
  "example_digest s = ''sha1('' @ s @ '')''"

definition example_config :: PaymentConfig where
  "example_config = \<lparr>RobokassaLogin = ''shop'', RobokassaPass = ''secret''\<rparr>"

definition example_order :: "string \<Rightarrow> order_row" where
  "example_order st =
     \<lparr>ord_id = 7, ord_user_id = 1, ord_total_amount = Finite 200, ord_status = st,
      ord_payment_id = [], ord_created_at = 1, ord_updated_at = 1\<rparr>"

definition example_payment :: "string \<Rightarrow> payment_row" where
  "example_payment st =
     \<lparr>pay_id = 5, pay_user_id = None, pay_order_id = Some 7,
      pay_amount = Finite 200, pay_currency = ''RUB'', pay_status = st,
      pay_robokassa_id = None,
      pay_transaction_id = None, pay_created_at = 2, pay_completed_at = None\<rparr>"

definition example_user :: user_row where
  "example_user =
     \<lparr>usr_id = 1, usr_first_name = None, usr_last_name = None, usr_middle_name = None,
      usr_inn = ''7707083893'', usr_telegram_id = 123456789, usr_email = [],
      usr_username = None, usr_api_key = Some ''key-1'', usr_registered_at = 0,
      usr_last_active = 0\<rparr>"

text \<open>
  One user, with a pending order and a pending payment for it, in the tables of the SQL
  script.
\<close>

definition example_db :: database where
  "example_db =
     \<lparr>users = [example_user], orders = [example_order ''pending''], order_items = [],
      payments = [example_payment ''pending''], payments_table = ScriptPayments,
      kiz_requests = [],
      seqs = \<lparr>users_seq = 1, orders_seq = 7, order_items_seq = 0, payments_seq = 5,
               kiz_requests_seq = 0\<rparr>\<rparr>"

text \<open>
  The same user in the tables of the main server, with a pending payment of the user,
  and that database once the payment is completed at time 10.
\<close>

definition example_user_payment :: "string \<Rightarrow> payment_row" where
  "example_user_payment st =
     \<lparr>pay_id = 5, pay_user_id = Some 1, pay_order_id = None,
      pay_amount = Finite 200, pay_currency = ''RUB'', pay_status = st,
      pay_robokassa_id = None,
      pay_transaction_id = None, pay_created_at = 2, pay_completed_at = None\<rparr>"

definition example_main_db :: database where
  "example_main_db =
     \<lparr>users = [example_user], orders = [], order_items = [],
      payments = [example_user_payment ''pending''], payments_table = MainServerPayments,
      kiz_requests = [],
      seqs = \<lparr>users_seq = 1, orders_seq = 0, order_items_seq = 0, payments_seq = 5,
               kiz_requests_seq = 0\<rparr>\<rparr>"

definition example_main_db_completed :: database where
  "example_main_db_completed =
     \<lparr>users = [example_user], orders = [], order_items = [],
      payments = [(example_user_payment ''completed'')
                    \<lparr>pay_robokassa_id := Some ''tx-1'', pay_completed_at := Some 10\<rparr>],
      payments_table = MainServerPayments, kiz_requests = [],
      seqs = \<lparr>users_seq = 1, orders_seq = 0, order_items_seq = 0, payments_seq = 5,
               kiz_requests_seq = 0\<rparr>\<rparr>"

text \<open>A callback for payment 5 and the amount 200.00, with the given signature.\<close>

definition example_callback :: "string \<Rightarrow> string \<Rightarrow> callback_request" where
  "example_callback invID sig =
     \<lparr>cb_Method = ''POST'', cb_InvId = invID, cb_OutSum = ''200.00'',
      cb_SignatureValue = sig, cb_Shp_TransactionId = ''tx-1''\<rparr>"

text \<open>
  An item with the given quantity, and an order of user 1 with the given items and the
  given total.
\<close>

definition example_item :: "int \<Rightarrow> OrderItem" where
  "example_item q =
     \<lparr>item_ID = 0, item_GTIN = ''04602380040001'', item_Quantity = q,
      item_Price = Finite 100\<rparr>"

definition example_order_of :: "OrderItem list \<Rightarrow> float64 \<Rightarrow> Order" where
  "example_order_of items amount =
     \<lparr>order_ID = 0, order_UserID = 1, order_Items = items,
      order_TotalAmount = amount, order_Status = OrderStatusCreated,
      order_PaymentID = [], order_CreatedAt = 0\<rparr>"

text \<open>
  The database with no rows, in the tables of the main server, and the registration of
  the specification's example.
\<close>

definition empty_db :: database where
  "empty_db =
     \<lparr>users = [], orders = [], order_items = [], payments = [],
      payments_table = MainServerPayments, kiz_requests = [],
      seqs = \<lparr>users_seq = 0, orders_seq = 0, order_items_seq = 0, payments_seq = 0,
               kiz_requests_seq = 0\<rparr>\<rparr>"

definition example_registration :: RegistrationRequest where
  "example_registration =
     \<lparr>rr_FirstName = ''Ivan'', rr_LastName = ''Petrov'', rr_MiddleName = [],
      rr_INN = ''7707083893'', rr_TelegramID = 123456789, rr_Email = [],
      rr_Username = ''ivan''\<rparr>"

text \<open>The database after that registration, at time 10 and with the key \<open>key-1\<close>.\<close>

definition registered_db :: database where
  "registered_db =
     \<lparr>users = [\<lparr>usr_id = 1, usr_first_name = Some ''Ivan'', usr_last_name = Some ''Petrov'',
                 usr_middle_name = Some [], usr_inn = ''7707083893'',
                 usr_telegram_id = 123456789, usr_email = [],
                 usr_username = Some ''ivan'', usr_api_key = Some ''key-1'',
                 usr_registered_at = 10, usr_last_active = 10\<rparr>],
      orders = [], order_items = [], payments = [],
      payments_table = MainServerPayments, kiz_requests = [],
      seqs = \<lparr>users_seq = 1, orders_seq = 0, order_items_seq = 0, payments_seq = 0,
               kiz_requests_seq = 0\<rparr>\<rparr>"

text \<open>
  A stand-in for the verb \<open>%g\<close> in the examples: on a whole amount from 1 to 999999
  the verb prints the decimal digits of the amount, and it prints the infinities and
  NaN by their names.
\<close>

definition example_fmt_g :: "float64 \<Rightarrow> string" where
  "example_fmt_g a =
     (case a of
        Finite x \<Rightarrow> fmt_d \<lfloor>x\<rfloor>
      | PosInf \<Rightarrow> ''+Inf''
      | NegInf \<Rightarrow> ''-Inf''
      | NaN \<Rightarrow> ''NaN'')"

text \<open>A payment request of the example user.\<close>

definition example_payment_request :: PaymentRequest where
  "example_payment_request =
     \<lparr>pr_TelegramID = 123456789, pr_Amount = Finite 200, pr_ReturnURL = []\<rparr>"




text \<open>
  An order request of the example user for two lines of the same code, with the given
  quantities.
\<close>

definition example_order_request :: "int \<Rightarrow> int \<Rightarrow> KIZOrderRequest" where
  "example_order_request q1 q2 =
     \<lparr>ko_TelegramID = 123456789,
      ko_GTINs = [\<lparr>gd_GTIN = ''04602380040001'', gd_Count = q1\<rparr>,
                  \<lparr>gd_GTIN = ''04602380040001'', gd_Count = q2\<rparr>],
      ko_INN = ''7707083893''\<rparr>"

text \<open>
  The database of the example once the order of that request with the quantities 2 and
  3 is stored at time 10.
\<close>

definition example_db_ordered :: database where
  "example_db_ordered =
     \<lparr>users = [example_user],
      orders = [example_order ''pending'',
                \<lparr>ord_id = 8, ord_user_id = 1, ord_total_amount = Finite 500,
                 ord_status = ''created'', ord_payment_id = [], ord_created_at = 10,
                 ord_updated_at = 10\<rparr>],
      order_items =
        [\<lparr>itm_id = 1, itm_order_id = 8, itm_gtin = ''04602380040001'', itm_quantity = 2,
          itm_price = Finite 100\<rparr>,
         \<lparr>itm_id = 2, itm_order_id = 8, itm_gtin = ''04602380040001'', itm_quantity = 3,
          itm_price = Finite 100\<rparr>],
      payments = [example_payment ''pending''], payments_table = ScriptPayments,
      kiz_requests = [],
      seqs = \<lparr>users_seq = 1, orders_seq = 8, order_items_seq = 2, payments_seq = 5,
               kiz_requests_seq = 0\<rparr>\<rparr>"



text \<open>An external service that fails and gives no codes.\<close>

definition failing_service :: external_service where
  "failing_service s gtins inn = ([], True)"

section \<open>Notions for the properties\<close>

text \<open>The item that \<open>prepareOrder\<close> makes of a line of the request.\<close>

definition order_line :: "GTINData \<Rightarrow> OrderItem" where
  "order_line g =
     \<lparr>item_ID = 0, item_GTIN = gd_GTIN g, item_Quantity = gd_Count g,
      item_Price = Finite 100\<rparr>"

text \<open>The columns of an item row that a statement gives (all but the id).\<close>

definition item_columns :: "item_row \<Rightarrow> int \<times> string \<times> int \<times> float64" where
  "item_columns r = (itm_order_id r, itm_gtin r, itm_quantity r, itm_price r)"

text \<open>The payments table once the row with the given id is completed.\<close>

definition mark_completed :: "nat \<Rightarrow> string \<Rightarrow> int \<Rightarrow> payment_row list \<Rightarrow> payment_row list" where
  "mark_completed now rid paymentID ps =
     map (\<lambda>p. if pay_id p = paymentID then set_completed now rid p else p) ps"

text \<open>
  The signed text and the redirect URL in the words of the specification:
  \<open>merchantId:amount:id:secret\<close>, and
  \<open>https://<gateway>/...?MerchantLogin=<id>&OutSum=<amount>&InvId=<id>&SignatureValue=<signature>\<close>
  with the gateway address of the source.
\<close>

definition signed_text :: "string \<Rightarrow> string \<Rightarrow> string \<Rightarrow> string \<Rightarrow> string" where
  "signed_text merchant amount ident secret =
     merchant @ '':'' @ amount @ '':'' @ ident @ '':'' @ secret"

definition gateway_url :: "string \<Rightarrow> string \<Rightarrow> string \<Rightarrow> string \<Rightarrow> string" where
  "gateway_url merchant amount ident signature =
     ''https://auth.robokassa.ru/Merchant/Index.aspx?MerchantLogin='' @ merchant
     @ ''&OutSum='' @ amount @ ''&InvId='' @ ident @ ''&SignatureValue='' @ signature"


section \<open>Properties of the floating-point operations\<close>

text \<open>
  A whole number of magnitude up to \<open>2^53\<close> is a value of \<open>float64\<close>: rounding leaves
  it as it is, and so do the conversion from \<open>int\<close> and the sums and products whose
  exact results are such numbers.
\<close>

lemma round_half_even_of_int: "round_half_even (of_int z) = z"
  by (simp add: round_half_even_def)

lemma binary_exponent_of_int:
  assumes "0 < m"
  shows "binary_exponent (of_int m) = bitlen m - 1"
  using assms by (simp add: binary_exponent_def)

lemma bitlen_le_54:
  assumes "0 < m" and "m \<le> 2 ^ 53"
  shows "1 \<le> bitlen m \<and> bitlen m \<le> 54"
proof -
  have pos: "1 \<le> bitlen m"
    using assms(1) bitlen_eq_zero_iff [of m] bitlen_nonneg [of m] by linarith
  have "(2::int) ^ nat (bitlen m - 1) \<le> m"
    using bitlen_bounds [OF assms(1)] by simp
  with assms(2) have "(2::int) ^ nat (bitlen m - 1) \<le> 2 ^ 53"
    by linarith
  then have "nat (bitlen m - 1) \<le> 53"
    by (rule power_le_imp_le_exp [rotated]) simp
  with pos show ?thesis
    by linarith
qed

lemma below_pow2_1024:
  assumes "\<bar>of_int n :: rat\<bar> \<le> 2 ^ 53"
  shows "\<not> pow2 1024 \<le> \<bar>of_int n\<bar>"
proof -
  have "(2::rat) ^ 53 < 2 ^ 1024"
    by (rule power_strict_increasing) simp_all
  with assms show ?thesis
    by (simp add: pow2_def)
qed

lemma float64_round_of_int:
  assumes "\<bar>n\<bar> \<le> 2 ^ 53"
  shows "float64_round (of_int n) = Finite (of_int n)"
proof (cases "n = 0")
  case True
  then show ?thesis
    by (simp add: float64_round_def)
next
  case False
  define m where "m = \<bar>n\<bar>"
  have m: "0 < m" "m \<le> 2 ^ 53"
    using False assms by (simp_all add: m_def)
  define e where "e = bitlen m - 1"
  have e: "0 \<le> e" "e \<le> 53"
    using bitlen_le_54 [OF m] by (simp_all add: e_def)
  have il: "binary_exponent \<bar>of_int n\<bar> = e"
    using binary_exponent_of_int [OF m(1)] by (simp add: e_def m_def)
  have small: "\<bar>of_int n :: rat\<bar> \<le> 2 ^ 53"
  proof -
    have "(of_int \<bar>n\<bar> :: rat) \<le> of_int (2 ^ 53)"
      using assms by (simp only: of_int_le_iff)
    then show ?thesis
      by simp
  qed
  have scaled: "\<exists>z. (of_int n :: rat) / pow2 (e - 52) = of_int z
                  \<and> of_int z * pow2 (e - 52) = (of_int n :: rat)"
  proof (cases "e \<le> 52")
    case True
    define k where "k = nat (52 - e)"
    have p: "pow2 (e - 52) = 1 / 2 ^ k"
      using True by (cases "e = 52") (simp_all add: pow2_def k_def)
    have "(of_int n :: rat) / pow2 (e - 52) = of_int (n * 2 ^ k)"
      by (simp add: p)
    moreover have "of_int (n * 2 ^ k) * pow2 (e - 52) = (of_int n :: rat)"
      by (simp add: p)
    ultimately show ?thesis
      by blast
  next
    case False
    with e have e53: "e = 53"
      by simp
    have "(2::int) ^ nat (bitlen m - 1) \<le> m"
      using bitlen_bounds [OF m(1)] by simp
    then have "(2::int) ^ 53 \<le> m"
      using e53 by (simp add: e_def)
    with m(2) have meq: "m = 2 ^ 53"
      by simp
    have p: "pow2 (e - 52) = 2"
      by (simp add: e53 pow2_def)
    have "even n"
    proof -
      have "even \<bar>n\<bar>"
        using meq by (simp add: m_def)
      then show ?thesis
        by simp
    qed
    then obtain h where h: "n = 2 * h"
      by (auto elim: evenE)
    have "(of_int n :: rat) / pow2 (e - 52) = of_int h"
      by (simp add: p h)
    moreover have "of_int h * pow2 (e - 52) = (of_int n :: rat)"
      by (simp add: p h)
    ultimately show ?thesis
      by blast
  qed
  then obtain z where z: "(of_int n :: rat) / pow2 (e - 52) = of_int z"
      "of_int z * pow2 (e - 52) = (of_int n :: rat)"
    by blast
  have mx: "max e (- 1022) = e"
    using e by simp
  have nz: "(of_int n :: rat) \<noteq> 0"
    using False by simp
  show ?thesis
    unfolding float64_round_def Let_def il mx z(1) round_half_even_of_int z(2)
    using nz below_pow2_1024 [OF small] by simp
qed

lemma float64_of_int_exact:
  "\<bar>n\<bar> \<le> 2 ^ 53 \<Longrightarrow> float64_of_int n = Finite (of_int n)"
  by (simp only: float64_of_int_def float64_round_of_int)

lemma float64_mul_exact:
  assumes "\<bar>a * b\<bar> \<le> 2 ^ 53"
  shows "float64_mul (Finite (of_int a)) (Finite (of_int b)) = Finite (of_int (a * b))"
proof -
  have "float64_mul (Finite (of_int a)) (Finite (of_int b))
          = float64_round (of_int (a * b))"
    by simp
  then show ?thesis
    by (simp only: float64_round_of_int [OF assms])
qed

lemma float64_add_exact:
  assumes "\<bar>a + b\<bar> \<le> 2 ^ 53"
  shows "float64_add (Finite (of_int a)) (Finite (of_int b)) = Finite (of_int (a + b))"
proof -
  have "float64_add (Finite (of_int a)) (Finite (of_int b))
          = float64_round (of_int (a + b))"
    by simp
  then show ?thesis
    by (simp only: float64_round_of_int [OF assms])
qed

text \<open>Facts for the evaluation of a rounding at a given number.\<close>

lemma floor_rat_numeral:
  "\<lfloor>numeral a / numeral b :: rat\<rfloor> = numeral a div numeral b"
  using floor_divide_of_int_eq [of "numeral a" "numeral b", where ?'a = rat] by simp

lemma ceiling_rat_numeral:
  "\<lceil>numeral a / numeral b :: rat\<rceil> = - (- numeral a div numeral b)"
  using floor_divide_of_int_eq [of "- numeral a" "numeral b", where ?'a = rat]
  by (simp add: ceiling_def)

lemmas float64_round_eval =
  float64_round_def binary_exponent_def pow2_def round_half_even_def Let_def compute_bitlen
  floor_rat_numeral ceiling_rat_numeral

section \<open>Properties of the order total\<close>

lemma prepare_loop_items:
  "snd (prepare_loop acc items gtins) = items @ map order_line gtins"
  by (induction gtins arbitrary: acc items) (simp_all add: order_line_def unitPrice_def)

lemma prepare_loop_exact:
  assumes "\<bar>A\<bar> + (\<Sum>g\<leftarrow>gtins. \<bar>gd_Count g\<bar>) * 100 \<le> 2 ^ 53"
  shows "fst (prepare_loop (Finite (of_int A)) items gtins)
           = Finite (of_int (A + (\<Sum>g\<leftarrow>gtins. gd_Count g * 100)))"
  using assms
proof (induction gtins arbitrary: A items)
  case Nil
  then show ?case by simp
next
  case (Cons g rest)
  let ?c = "gd_Count g"
  have rest_nonneg: "0 \<le> (\<Sum>g\<leftarrow>rest. \<bar>gd_Count g\<bar>)"
    by (rule sum_list_nonneg) auto
  from Cons.prems
  have bound: "\<bar>A\<bar> + \<bar>?c\<bar> * 100 + (\<Sum>g\<leftarrow>rest. \<bar>gd_Count g\<bar>) * 100 \<le> 2 ^ 53"
    by (simp add: algebra_simps)
  have c: "\<bar>?c\<bar> \<le> 2 ^ 53"
    using bound rest_nonneg by linarith
  have prod: "\<bar>?c * 100\<bar> \<le> 2 ^ 53"
    using bound rest_nonneg by (simp add: abs_mult)
  have total: "\<bar>A + ?c * 100\<bar> \<le> 2 ^ 53"
    using bound rest_nonneg by (simp add: abs_mult)
  have next_bound: "\<bar>A + ?c * 100\<bar> + (\<Sum>g\<leftarrow>rest. \<bar>gd_Count g\<bar>) * 100 \<le> 2 ^ 53"
    using bound by (simp add: abs_mult)
  have hundred: "Finite 100 = Finite (of_int 100)"
    by simp
  have step: "float64_add (Finite (of_int A)) (float64_mul (float64_of_int ?c) unitPrice)
                = Finite (of_int (A + ?c * 100))"
    unfolding unitPrice_def float64_of_int_exact [OF c] hundred
      float64_mul_exact [OF prod] float64_add_exact [OF total] ..
  show ?case
    using Cons.IH [OF next_bound] by (simp add: step algebra_simps)
qed

lemma calculate_loop_exact:
  assumes "\<forall>item \<in> set items. item_Price item = Finite (of_int (price item)) \<and> 0 \<le> price item"
    and "\<bar>A\<bar> + (\<Sum>item\<leftarrow>items. \<bar>item_Quantity item\<bar> * price item) \<le> 2 ^ 53"
  shows "calculate_loop (Finite (of_int A)) items
           = Finite (of_int (A + (\<Sum>item\<leftarrow>items. item_Quantity item * price item)))"
  using assms
proof (induction items arbitrary: A)
  case Nil
  then show ?case by simp
next
  case (Cons item rest)
  let ?q = "item_Quantity item" and ?p = "price item"
  from Cons.prems(1) have p: "item_Price item = Finite (of_int ?p)" "0 \<le> ?p"
    and rest: "\<forall>item \<in> set rest. item_Price item = Finite (of_int (price item)) \<and> 0 \<le> price item"
    by simp_all
  have rest_nonneg: "0 \<le> (\<Sum>item\<leftarrow>rest. \<bar>item_Quantity item\<bar> * price item)"
    using rest by (intro sum_list_nonneg) auto
  from Cons.prems(2)
  have bound: "\<bar>A\<bar> + \<bar>?q\<bar> * ?p + (\<Sum>item\<leftarrow>rest. \<bar>item_Quantity item\<bar> * price item) \<le> 2 ^ 53"
    by (simp add: algebra_simps)
  have qp: "\<bar>?q * ?p\<bar> = \<bar>?q\<bar> * ?p"
    using p(2) by (simp add: abs_mult)
  have total: "\<bar>A + ?q * ?p\<bar> \<le> 2 ^ 53"
    using bound rest_nonneg qp by linarith
  have next_bound:
    "\<bar>A + ?q * ?p\<bar> + (\<Sum>item\<leftarrow>rest. \<bar>item_Quantity item\<bar> * price item) \<le> 2 ^ 53"
    using bound qp by linarith
  show ?case
  proof (cases "0 < ?p")
    case True
    have prod: "\<bar>?q * ?p\<bar> \<le> 2 ^ 53"
      using bound rest_nonneg qp by linarith
    have "\<bar>?q\<bar> * 1 \<le> \<bar>?q\<bar> * ?p"
      using True by (intro mult_left_mono) simp_all
    with prod qp have q: "\<bar>?q\<bar> \<le> 2 ^ 53"
      by linarith
    have step: "float64_add (Finite (of_int A))
                  (float64_mul (float64_of_int ?q) (Finite (of_int ?p)))
                = Finite (of_int (A + ?q * ?p))"
      unfolding float64_of_int_exact [OF q] float64_mul_exact [OF prod]
        float64_add_exact [OF total] ..
    show ?thesis
      using Cons.IH [OF rest next_bound] True by (simp add: p(1) step algebra_simps)
  next
    case False
    with p(2) have zero: "?p = 0"
      by simp
    show ?thesis
      using Cons.IH [of A, OF rest] Cons.prems(2) by (simp add: p(1) zero)
  qed
qed

lemma prepareOrder_items:
  "snd (prepareOrder telegramID gtins) = map order_line gtins"
  using prepare_loop_items [of "Finite 0" "[]" gtins]
  by (simp add: prepareOrder_def split_beta)

lemma prepareOrder_header:
  "order_Status (fst (prepareOrder telegramID gtins)) = ''created''"
  "order_PaymentID (fst (prepareOrder telegramID gtins)) = []"
  "order_UserID (fst (prepareOrder telegramID gtins)) = 0"
  by (simp_all add: prepareOrder_def split_beta OrderStatusCreated_def)

lemma prepareOrder_exact:
  assumes "(\<Sum>g\<leftarrow>gtins. \<bar>gd_Count g\<bar>) * 100 \<le> 2 ^ 53"
  shows "order_TotalAmount (fst (prepareOrder telegramID gtins))
           = Finite (of_int (\<Sum>g\<leftarrow>gtins. gd_Count g * 100))"
proof -
  from assms have "fst (prepare_loop (Finite (of_int 0)) [] gtins)
               = Finite (of_int (0 + (\<Sum>g\<leftarrow>gtins. gd_Count g * 100)))"
    by (intro prepare_loop_exact) simp
  then show ?thesis
    by (simp add: prepareOrder_def split_beta)
qed

text \<open>
  Claim C3, as amended. \<open>prepareOrder\<close> gives the status \<open>created\<close> and one item for
  each line of the request, with the line's code and count and the unit price 100.
  When the counts are such that the sum of their magnitudes times 100 is at most
  \<open>2^53\<close>, so that no \<open>float64\<close> operation of the loop rounds, the total amount of
  the order is the sum of count times 100 over the lines. \<open>Order.CalculateTotal\<close>
  gives the sum of quantity times price over the items of an order whose prices are
  whole numbers, not negative, when the sum of the magnitudes of the products is at
  most \<open>2^53\<close>.
\<close>

theorem prepareOrder_total_amount:
  "order_Status (fst (prepareOrder telegramID gtins)) = ''created''
   \<and> snd (prepareOrder telegramID gtins) = map order_line gtins
   \<and> ((\<Sum>g\<leftarrow>gtins. \<bar>gd_Count g\<bar>) * 100 \<le> 2 ^ 53 \<longrightarrow>
        order_TotalAmount (fst (prepareOrder telegramID gtins))
          = Finite (of_int (\<Sum>g\<leftarrow>gtins. gd_Count g * 100)))
   \<and> ((\<forall>item \<in> set (order_Items ord).
           item_Price item = Finite (of_int (price item)) \<and> 0 \<le> price item)
        \<and> (\<Sum>item\<leftarrow>order_Items ord. \<bar>item_Quantity item\<bar> * price item) \<le> 2 ^ 53 \<longrightarrow>
        Order_CalculateTotal ord
          = Finite (of_int (\<Sum>item\<leftarrow>order_Items ord. item_Quantity item * price item)))"
proof (intro conjI impI)
  show "order_Status (fst (prepareOrder telegramID gtins)) = ''created''"
    by (rule prepareOrder_header(1))
  show "snd (prepareOrder telegramID gtins) = map order_line gtins"
    by (rule prepareOrder_items)
next
  assume "(\<Sum>g\<leftarrow>gtins. \<bar>gd_Count g\<bar>) * 100 \<le> 2 ^ 53"
  then show "order_TotalAmount (fst (prepareOrder telegramID gtins))
          = Finite (of_int (\<Sum>g\<leftarrow>gtins. gd_Count g * 100))"
    by (rule prepareOrder_exact)
next
  assume h: "(\<forall>item \<in> set (order_Items ord).
           item_Price item = Finite (of_int (price item)) \<and> 0 \<le> price item)
        \<and> (\<Sum>item\<leftarrow>order_Items ord. \<bar>item_Quantity item\<bar> * price item) \<le> 2 ^ 53"
  then have "calculate_loop (Finite (of_int 0)) (order_Items ord)
               = Finite (of_int (0 + (\<Sum>item\<leftarrow>order_Items ord. item_Quantity item * price item)))"
    by (intro calculate_loop_exact) simp_all
  then show "Order_CalculateTotal ord
          = Finite (of_int (\<Sum>item\<leftarrow>order_Items ord. item_Quantity item * price item))"
    by (simp add: Order_CalculateTotal_def)
qed

theorem prepareOrder_total_amount_witness:
  "(\<Sum>g\<leftarrow>[\<lparr>gd_GTIN = ''04602380040001'', gd_Count = 2\<rparr>]. \<bar>gd_Count g\<bar>) * 100 \<le> 2 ^ 53
   \<and> order_TotalAmount
        (fst (prepareOrder 123456789 [\<lparr>gd_GTIN = ''04602380040001'', gd_Count = 2\<rparr>]))
       = Finite 200
   \<and> order_Status
        (fst (prepareOrder 123456789 [\<lparr>gd_GTIN = ''04602380040001'', gd_Count = 2\<rparr>]))
       = ''created''
   \<and> snd (prepareOrder 123456789 [\<lparr>gd_GTIN = ''04602380040001'', gd_Count = 2\<rparr>])
       = [example_item 2]
   \<and> item_Price (example_item 2) = Finite (of_int 100)
   \<and> item_Price (example_item 3) = Finite (of_int 100)
   \<and> (\<Sum>item\<leftarrow>[example_item 2, example_item 3]. \<bar>item_Quantity item\<bar> * 100) \<le> 2 ^ 53
   \<and> Order_CalculateTotal (example_order_of [example_item 2, example_item 3] (Finite 0))
       = Finite 500"
  using prepareOrder_total_amount
    [of 123456789 "[\<lparr>gd_GTIN = ''04602380040001'', gd_Count = 2\<rparr>]"
        "example_order_of [example_item 2, example_item 3] (Finite 0)" "\<lambda>item. 100"]
  by (simp add: order_line_def example_item_def example_order_of_def)

text \<open>
  Claim C3 as stated fails, because \<open>float64\<close> rounds. For one line with the count
  \<open>2^53 + 1\<close> the conversion of the count gives \<open>2^53\<close>, and the total of the
  assembled order is \<open>2^53 * 100\<close>, not \<open>(2^53 + 1) * 100\<close>. For one item with the
  quantity 3 and the price 0.1 (the \<open>float64\<close> nearest to one tenth), the total of
  \<open>Order.CalculateTotal\<close> is the \<open>float64\<close> above three times that price.
\<close>

theorem order_total_rounding_counterexample:
  "order_TotalAmount
      (fst (prepareOrder 123456789
              [\<lparr>gd_GTIN = ''04602380040001'', gd_Count = 9007199254740993\<rparr>]))
     = Finite 900719925474099200
   \<and> (\<Sum>g\<leftarrow>[\<lparr>gd_GTIN = ''04602380040001'', gd_Count = 9007199254740993\<rparr>].
         gd_Count g * 100) = 900719925474099300
   \<and> order_TotalAmount
        (fst (prepareOrder 123456789
                [\<lparr>gd_GTIN = ''04602380040001'', gd_Count = 9007199254740993\<rparr>]))
       \<noteq> Finite (of_int (\<Sum>g\<leftarrow>[\<lparr>gd_GTIN = ''04602380040001'',
                                     gd_Count = 9007199254740993\<rparr>]. gd_Count g * 100))
   \<and> float64_round (1 / 10) = Finite (3602879701896397 / 36028797018963968)
   \<and> Order_CalculateTotal
        (example_order_of
           [\<lparr>item_ID = 0, item_GTIN = ''04602380040001'', item_Quantity = 3,
             item_Price = Finite (3602879701896397 / 36028797018963968)\<rparr>] (Finite 0))
       = Finite (1351079888211149 / 4503599627370496)
   \<and> 3 * (3602879701896397 / 36028797018963968)
       \<noteq> (1351079888211149 / 4503599627370496 :: rat)"
  by (simp add: prepareOrder_def unitPrice_def float64_of_int_def float64_round_eval
        Order_CalculateTotal_def example_order_of_def)

section \<open>Properties of the payment callback\<close>

lemma filter_key_distinct:
  "distinct (map f xs) \<Longrightarrow> x \<in> set xs \<Longrightarrow>
     filter (\<lambda>y. f y = f x \<and> P y) xs = (if P x then [x] else [])"
proof (induction xs)
  case Nil
  then show ?case by simp
next
  case (Cons a xs)
  show ?case
  proof (cases "a = x")
    case True
    with Cons.prems have "\<forall>y \<in> set xs. f y \<noteq> f x" by (auto simp: image_iff)
    then have "filter (\<lambda>y. f y = f x \<and> P y) xs = []" by (simp add: filter_empty_conv)
    with True show ?thesis by simp
  next
    case False
    with Cons.prems have x: "x \<in> set xs" and d: "distinct (map f xs)" and "f a \<noteq> f x"
      by (auto simp: image_iff)
    then show ?thesis using Cons.IH by simp
  qed
qed

lemma key_distinct_eq:
  "distinct (map f xs) \<Longrightarrow> x \<in> set xs \<Longrightarrow> y \<in> set xs \<Longrightarrow> f y = f x \<Longrightarrow> y = x"
  by (auto simp: distinct_map inj_on_def)

lemma set_completed_simps:
  "pay_id (set_completed now rid p) = pay_id p"
  "pay_status (set_completed now rid p) = ''completed''"
  "pay_order_id (set_completed now rid p) = pay_order_id p"
  by (simp_all add: set_completed_def)

text \<open>
  No declaration of \<open>payments\<close> has the column \<open>robokassa_id\<close> together with the
  column \<open>order_id\<close> or with the trigger.
\<close>

lemma robokassa_id_excludes_order:
  "has_robokassa_id d \<Longrightarrow> \<not> has_order_id d \<and> \<not> has_order_status_trigger d"
  by (cases d) (simp_all add: has_robokassa_id_def has_order_id_def has_order_status_trigger_def)

lemma exec_complete_payment_refused:
  assumes "has_order_id (payments_table db)"
  shows "exec_complete_payment fault now rid pid db
           = Inl (if fault then ErrFault else ErrColumn)"
  using assms robokassa_id_excludes_order [of "payments_table db"]
  by (auto simp: exec_complete_payment_def)

lemma exec_complete_payment_orders:
  assumes "exec_complete_payment fault now rid pid db = Inr (db', n)"
  shows "orders db' = orders db"
proof -
  from assms have "has_robokassa_id (payments_table db)"
    by (auto simp: exec_complete_payment_def split: if_splits)
  then have "\<not> has_order_status_trigger (payments_table db)"
    using robokassa_id_excludes_order by blast
  with assms show ?thesis
    by (auto simp: exec_complete_payment_def Let_def split: if_splits)
qed

lemma exec_complete_payment_pending:
  assumes table: "payments_table db = MainServerPayments"
    and pay: "pay \<in> set (payments db)" "pay_id pay = pid" "pay_status pay = ''pending''"
    and pk: "distinct (map pay_id (payments db))"
  shows "exec_complete_payment False now rid pid db =
           Inr (db\<lparr>payments := mark_completed now rid pid (payments db)\<rparr>, 1)"
proof -
  have hit: "filter (pending_with_id pid) (payments db) = [pay]"
    using filter_key_distinct [OF pk pay(1), of "\<lambda>p. pay_status p = ''pending''"] pay(2,3)
    by (simp add: pending_with_id_def [abs_def])
  have ps: "map (\<lambda>p. if pending_with_id pid p then set_completed now rid p else p) (payments db)
              = mark_completed now rid pid (payments db)"
    unfolding mark_completed_def
  proof (rule map_cong [OF refl])
    fix p assume "p \<in> set (payments db)"
    then have "pay_id p = pid \<Longrightarrow> p = pay"
      using key_distinct_eq [OF pk pay(1)] pay(2) by simp
    then show "(if pending_with_id pid p then set_completed now rid p else p)
                 = (if pay_id p = pid then set_completed now rid p else p)"
      using pay(3) by (auto simp: pending_with_id_def)
  qed
  show ?thesis
    unfolding exec_complete_payment_def Let_def hit ps
    by (simp add: table has_robokassa_id_def has_order_status_trigger_def)
qed

lemma exec_complete_payment_no_match:
  assumes "payments_table db = MainServerPayments"
    and "\<And>p. p \<in> set (payments db) \<Longrightarrow> pay_id p = pid \<Longrightarrow> pay_status p \<noteq> ''pending''"
  shows "exec_complete_payment False now rid pid db = Inr (db, 0)"
proof -
  have none: "p \<in> set (payments db) \<Longrightarrow> \<not> pending_with_id pid p" for p
    using assms(2) by (auto simp: pending_with_id_def)
  then have hit: "filter (pending_with_id pid) (payments db) = []"
    by (simp add: filter_empty_conv)
  have ps: "map (\<lambda>p. if pending_with_id pid p then set_completed now rid p else p) (payments db)
              = payments db"
    by (rule map_idI) (simp add: none)
  show ?thesis
    unfolding exec_complete_payment_def Let_def hit ps
    by (simp add: assms(1) has_robokassa_id_def has_order_status_trigger_def)
qed

lemma mark_completed_status:
  assumes "p \<in> set (mark_completed now rid pid ps)" "pay_id p = pid"
  shows "pay_status p = ''completed''"
proof -
  from assms(1) have "\<exists>q. p = (if pay_id q = pid then set_completed now rid q else q)"
    unfolding mark_completed_def set_map image_iff by blast
  then obtain q where p: "p = (if pay_id q = pid then set_completed now rid q else q)" ..
  show ?thesis
  proof (cases "pay_id q = pid")
    case True
    with p show ?thesis by (simp add: set_completed_simps)
  next
    case False
    with p assms(2) show ?thesis by simp
  qed
qed

lemma callback_signed:
  assumes "cb_Method r = ''POST'' \<or> cb_Method r = ''GET''"
    and "cb_OutSum r \<noteq> []" "cb_SignatureValue r \<noteq> []"
    and "cb_SignatureValue r = sha1_hex (callback_signature rk (cb_OutSum r) (cb_InvId r))"
    and "Atoi (cb_InvId r) = Some pid"
    and "exec_complete_payment False now (cb_Shp_TransactionId r) pid db = Inr (db', n)"
    and "\<not> faults 0"
  shows "robokassaCallbackHandler sha1_hex rk now faults db r =
           (db', \<lparr>status_code = 200, body = Written (''OK'' @ cb_InvId r)\<rparr>)"
proof -
  have "cb_InvId r \<noteq> []"
    using assms(5) by (auto simp: Atoi_def)
  then show ?thesis
    using assms unfolding robokassaCallbackHandler_def Let_def by auto
qed

text \<open>
  Claim C1, as amended. A callback whose \<open>SignatureValue\<close> is not the digest of
  \<open>merchantLogin:OutSum:InvId:password\<close> leaves the whole database as it was and is
  never acknowledged. The reply is 405 when the method is neither POST nor GET, 400
  (bad parameters) when one of the three values is empty, and otherwise 403 (bad
  signature).
\<close>

theorem callback_bad_signature_rejected:
  assumes "cb_SignatureValue r \<noteq> sha1_hex (callback_signature rk (cb_OutSum r) (cb_InvId r))"
  shows "robokassaCallbackHandler sha1_hex rk now faults db r =
           (db, if cb_Method r \<noteq> ''POST'' \<and> cb_Method r \<noteq> ''GET''
                then \<lparr>status_code = 405, body = Text MethodNotSupported\<rparr>
                else if cb_InvId r = [] \<or> cb_OutSum r = [] \<or> cb_SignatureValue r = []
                then \<lparr>status_code = 400, body = Text BadParameters\<rparr>
                else \<lparr>status_code = 403, body = Text BadSignature\<rparr>)"
  using assms by (simp add: robokassaCallbackHandler_def Let_def)

theorem callback_bad_signature_rejected_witness:
  "cb_SignatureValue (example_callback ''5'' ''forged'')
     \<noteq> example_digest (callback_signature example_config ''200.00'' ''5'')
   \<and> robokassaCallbackHandler example_digest example_config 10 (\<lambda>n. False)
        example_db (example_callback ''5'' ''forged'')
       = (example_db, \<lparr>status_code = 403, body = Text BadSignature\<rparr>)"
  using callback_bad_signature_rejected
    [of "example_callback ''5'' ''forged''" example_digest example_config
        10 "\<lambda>n. False" example_db]
  by (simp add: example_callback_def example_digest_def)

text \<open>
  Claim C1 as stated fails: a callback without a \<open>SignatureValue\<close> does not carry
  the digest, and the handler answers 400 (bad parameters), not 403.
\<close>

theorem callback_empty_signature_counterexample:
  "cb_SignatureValue (example_callback ''5'' [])
     \<noteq> example_digest (callback_signature example_config ''200.00'' ''5'')
   \<and> snd (robokassaCallbackHandler example_digest example_config 10 (\<lambda>n. False)
        example_db (example_callback ''5'' []))
       = \<lparr>status_code = 400, body = Text BadParameters\<rparr>"
  by (simp add: robokassaCallbackHandler_def example_callback_def example_digest_def)

text \<open>
  On the table that the main server declares, the UPDATE of the callback is idempotent:
  for a pending payments row, the first of two equal, correctly signed callbacks
  changes that one row to completed, the second changes no row, and both are answered
  \<open>OK\<close> followed by the id. A row of that table has no order.
\<close>

lemma callback_twice_on_main_server_table:
  assumes table: "payments_table db = MainServerPayments"
    and meth: "cb_Method r = ''POST'' \<or> cb_Method r = ''GET''"
    and given: "cb_OutSum r \<noteq> []" "cb_SignatureValue r \<noteq> []"
    and signed:
      "cb_SignatureValue r = sha1_hex (callback_signature rk (cb_OutSum r) (cb_InvId r))"
    and inv: "Atoi (cb_InvId r) = Some pid"
    and pay: "pay \<in> set (payments db)" "pay_id pay = pid" "pay_status pay = ''pending''"
    and pk: "distinct (map pay_id (payments db))"
    and ok: "\<not> faults1 0" "\<not> faults2 0"
  shows "let rid = cb_Shp_TransactionId r;
             ack = \<lparr>status_code = 200, body = Written (''OK'' @ cb_InvId r)\<rparr>;
             db1 = db\<lparr>payments := mark_completed now1 rid pid (payments db)\<rparr>
         in robokassaCallbackHandler sha1_hex rk now1 faults1 db r = (db1, ack)
            \<and> exec_complete_payment False now1 rid pid db = Inr (db1, 1)
            \<and> set_completed now1 rid pay \<in> set (payments db1)
            \<and> robokassaCallbackHandler sha1_hex rk now2 faults2 db1 r = (db1, ack)
            \<and> exec_complete_payment False now2 rid pid db1 = Inr (db1, 0)"
proof -
  define rid where "rid = cb_Shp_TransactionId r"
  define db1 where "db1 = db\<lparr>payments := mark_completed now1 rid pid (payments db)\<rparr>"
  have first: "exec_complete_payment False now1 rid pid db = Inr (db1, 1)"
    unfolding db1_def by (rule exec_complete_payment_pending [OF table pay pk])
  have second: "exec_complete_payment False now2 rid pid db1 = Inr (db1, 0)"
  proof (rule exec_complete_payment_no_match)
    show "payments_table db1 = MainServerPayments"
      by (simp add: db1_def table)
    fix p assume "p \<in> set (payments db1)" "pay_id p = pid"
    then have "pay_status p = ''completed''"
      using mark_completed_status [of p now1 rid pid "payments db"] by (simp add: db1_def)
    then show "pay_status p \<noteq> ''pending''" by simp
  qed
  have h1: "robokassaCallbackHandler sha1_hex rk now1 faults1 db r =
              (db1, \<lparr>status_code = 200, body = Written (''OK'' @ cb_InvId r)\<rparr>)"
    using callback_signed [of r sha1_hex rk pid now1 db db1 1 faults1]
      meth given signed inv ok(1) first by (simp add: rid_def)
  have h2: "robokassaCallbackHandler sha1_hex rk now2 faults2 db1 r =
              (db1, \<lparr>status_code = 200, body = Written (''OK'' @ cb_InvId r)\<rparr>)"
    using callback_signed [of r sha1_hex rk pid now2 db1 db1 0 faults2]
      meth given signed inv ok(2) second by (simp add: rid_def)
  have p1: "set_completed now1 rid pay \<in> set (payments db1)"
    using pay(1,2) by (force simp: db1_def mark_completed_def)
  show ?thesis
    unfolding Let_def rid_def [symmetric] db1_def [symmetric]
    using first second h1 h2 p1 by simp
qed

text \<open>
  The callback never changes an order, whatever the table and the request: the UPDATE
  runs only on the table with \<open>robokassa_id\<close>, which has no trigger.
\<close>

lemma callback_changes_no_order:
  "orders (fst (robokassaCallbackHandler sha1_hex rk now faults db r)) = orders db"
proof (cases "\<exists>pid db' n. Atoi (cb_InvId r) = Some pid
          \<and> exec_complete_payment (faults 0) now (cb_Shp_TransactionId r) pid db = Inr (db', n)")
  case True
  then obtain pid db' n where inv: "Atoi (cb_InvId r) = Some pid"
    and run: "exec_complete_payment (faults 0) now (cb_Shp_TransactionId r) pid db = Inr (db', n)"
    by blast
  show ?thesis
    using exec_complete_payment_orders [OF run]
    by (simp add: robokassaCallbackHandler_def Let_def inv run)
next
  case False
  then show ?thesis
    by (auto simp: robokassaCallbackHandler_def Let_def split: option.splits sum.splits)
qed

text \<open>
  On a table with the column \<open>order_id\<close>, where a payment has an owning order, a
  correctly signed callback is answered 500 and the database is as it was.
\<close>

lemma callback_refused_where_orders_are:
  assumes "has_order_id (payments_table db)"
    and "cb_Method r = ''POST'' \<or> cb_Method r = ''GET''"
    and "cb_OutSum r \<noteq> []" "cb_SignatureValue r \<noteq> []"
    and "cb_SignatureValue r = sha1_hex (callback_signature rk (cb_OutSum r) (cb_InvId r))"
    and "Atoi (cb_InvId r) = Some pid"
  shows "robokassaCallbackHandler sha1_hex rk now faults db r
           = (db, \<lparr>status_code = 500, body = Text PaymentUpdateFailed\<rparr>)"
proof -
  have "cb_InvId r \<noteq> []"
    using assms(6) by (auto simp: Atoi_def)
  then show ?thesis
    using assms exec_complete_payment_refused [OF assms(1)]
    unfolding robokassaCallbackHandler_def Let_def by auto
qed

text \<open>
  Claim C2 at a payment with an owning order. In the tables of the SQL script, payment 5
  is pending and its order 7 is pending. The correctly signed callback for payment 5 is
  answered 500 (``payment update failed''), the first time and the second time, and the
  database is as it was: the payment is still pending and the order is still pending.
\<close>

theorem callback_for_owned_payment_refused:
  "payments_table example_db = ScriptPayments
   \<and> payments example_db = [example_payment ''pending'']
   \<and> pay_order_id (example_payment ''pending'') = Some (ord_id (example_order ''pending''))
   \<and> orders example_db = [example_order ''pending'']
   \<and> cb_SignatureValue (example_callback ''5'' ''sha1(shop:200.00:5:secret)'')
       = example_digest (callback_signature example_config ''200.00'' ''5'')
   \<and> robokassaCallbackHandler example_digest example_config 10 (\<lambda>n. False) example_db
        (example_callback ''5'' ''sha1(shop:200.00:5:secret)'')
       = (example_db, \<lparr>status_code = 500, body = Text PaymentUpdateFailed\<rparr>)
   \<and> robokassaCallbackHandler example_digest example_config 20 (\<lambda>n. False) example_db
        (example_callback ''5'' ''sha1(shop:200.00:5:secret)'')
       = (example_db, \<lparr>status_code = 500, body = Text PaymentUpdateFailed\<rparr>)"
proof -
  have table: "has_order_id (payments_table example_db)"
    by (simp add: example_db_def has_order_id_def)
  have signed: "cb_SignatureValue (example_callback ''5'' ''sha1(shop:200.00:5:secret)'')
       = example_digest (callback_signature example_config ''200.00'' ''5'')"
    by (simp add: example_callback_def example_digest_def callback_signature_def
          example_config_def)
  have run: "robokassaCallbackHandler example_digest example_config now (\<lambda>n. False) example_db
        (example_callback ''5'' ''sha1(shop:200.00:5:secret)'')
       = (example_db, \<lparr>status_code = 500, body = Text PaymentUpdateFailed\<rparr>)" for now
    by (rule callback_refused_where_orders_are [OF table, where pid = 5])
       (simp_all add: example_callback_def example_digest_def callback_signature_def
          example_config_def Atoi_def digit_value_def)
  show ?thesis
    using signed run [of 10] run [of 20]
    by (simp add: example_db_def example_payment_def example_order_def)
qed

text \<open>
  The same two callbacks on the main server's own table, where payment 5 belongs to
  user 1 and to no order: the first completes the payment, the second changes nothing,
  and both are acknowledged.
\<close>

lemma callback_twice_on_main_server_example:
  "robokassaCallbackHandler example_digest example_config 10 (\<lambda>n. False) example_main_db
       (example_callback ''5'' ''sha1(shop:200.00:5:secret)'')
     = (example_main_db_completed, \<lparr>status_code = 200, body = Written ''OK5''\<rparr>)
   \<and> robokassaCallbackHandler example_digest example_config 20 (\<lambda>n. False)
       example_main_db_completed (example_callback ''5'' ''sha1(shop:200.00:5:secret)'')
     = (example_main_db_completed, \<lparr>status_code = 200, body = Written ''OK5''\<rparr>)"
  by (simp add: robokassaCallbackHandler_def Let_def example_callback_def example_digest_def
        callback_signature_def example_config_def Atoi_def digit_value_def
        exec_complete_payment_def has_robokassa_id_def has_order_status_trigger_def
        pending_with_id_def set_completed_def example_main_db_def
        example_main_db_completed_def example_user_payment_def)

section \<open>Properties of the authorisation middleware\<close>

lemma select_user_id_by_api_key_found:
  "(\<exists>uid. select_user_id_by_api_key False apiKey db = Inr uid)
     \<longleftrightarrow> Some apiKey \<in> set (map usr_api_key (users db))"
proof -
  have "filter (\<lambda>u. usr_api_key u = Some apiKey) (users db) = []
          \<longleftrightarrow> Some apiKey \<notin> set (map usr_api_key (users db))"
    by (force simp: filter_empty_conv image_iff)
  then show ?thesis
    by (auto simp: select_user_id_by_api_key_def split: list.splits)
qed

text \<open>
  Claim C10, as amended. For a request to a path that is neither one of the public
  paths nor under \<open>/docs/\<close>, the middleware answers 401 exactly when the request
  carries a non-empty \<open>X-API-Key\<close> and the lookup of the key gives no user: no stored
  key is equal to it, or the query fails. The middleware gives no other answer of its
  own, and a request without the header (or with an empty one) is handed on, with no
  lookup and no user in its context.
\<close>

theorem auth_rejects_iff_lookup_fails:
  assumes "ar_Path r \<notin> set publicPaths" and "\<not> HasPrefix (ar_Path r) ''/docs/''"
  shows "(snd (authMiddleware now faults db r)
            = Answered \<lparr>status_code = 401, body = Text NotAuthorized\<rparr>
          \<longleftrightarrow> ar_APIKey r \<noteq> []
              \<and> (faults 0 \<or> Some (ar_APIKey r) \<notin> set (map usr_api_key (users db))))
       \<and> (\<forall>resp. snd (authMiddleware now faults db r) = Answered resp
             \<longrightarrow> resp = \<lparr>status_code = 401, body = Text NotAuthorized\<rparr>)
       \<and> (ar_APIKey r = [] \<longrightarrow> authMiddleware now faults db r = (db, Forwarded None))"
proof (cases "ar_APIKey r = []")
  case True
  with assms show ?thesis by (simp add: authMiddleware_def)
next
  case False
  show ?thesis
  proof (cases "faults 0")
    case True
    with assms False show ?thesis
      by (simp add: authMiddleware_def select_user_id_by_api_key_def)
  next
    case nofault: False
    show ?thesis
    proof (cases "Some (ar_APIKey r) \<in> set (map usr_api_key (users db))")
      case True
      then obtain uid where "select_user_id_by_api_key False (ar_APIKey r) db = Inr uid"
        using select_user_id_by_api_key_found by blast
      with assms False nofault True show ?thesis
        by (simp add: authMiddleware_def Let_def)
    next
      case notin: False
      then have "\<nexists>uid. select_user_id_by_api_key False (ar_APIKey r) db = Inr uid"
        using select_user_id_by_api_key_found by blast
      then obtain err where "select_user_id_by_api_key False (ar_APIKey r) db = Inl err"
        by (cases "select_user_id_by_api_key False (ar_APIKey r) db") auto
      with assms False nofault notin show ?thesis
        by (simp add: authMiddleware_def Let_def)
    qed
  qed
qed

theorem auth_rejects_iff_lookup_fails_witness:
  "authMiddleware 10 (\<lambda>n. False) example_db \<lparr>ar_Path = ''/api/kizs'', ar_APIKey = ''wrong''\<rparr>
     = (example_db, Answered \<lparr>status_code = 401, body = Text NotAuthorized\<rparr>)
   \<and> authMiddleware 10 (\<lambda>n. False) example_db \<lparr>ar_Path = ''/api/kizs'', ar_APIKey = []\<rparr>
     = (example_db, Forwarded None)
   \<and> snd (authMiddleware 10 (\<lambda>n. False) example_db
        \<lparr>ar_Path = ''/api/kizs'', ar_APIKey = ''key-1''\<rparr>) = Forwarded (Some 1)"
  using auth_rejects_iff_lookup_fails
    [of "\<lparr>ar_Path = ''/api/kizs'', ar_APIKey = ''wrong''\<rparr>" 10 "\<lambda>n. False" example_db]
    auth_rejects_iff_lookup_fails
    [of "\<lparr>ar_Path = ''/api/kizs'', ar_APIKey = []\<rparr>" 10 "\<lambda>n. False" example_db]
  by (simp add: authMiddleware_def publicPaths_def HasPrefix_def example_db_def
        example_user_def select_user_id_by_api_key_def update_last_active_def)

text \<open>
  Claim C10 as stated fails in two ways. The path \<open>/docs/index.html\<close> is not one of
  the public paths, the key \<open>wrong\<close> is no user's key, and the request is handed on;
  and a request with the key of user 1 is answered 401 when the query fails.
\<close>

theorem auth_docs_prefix_and_query_failure_counterexample:
  "''/docs/index.html'' \<notin> set publicPaths
   \<and> Some ''wrong'' \<notin> set (map usr_api_key (users example_db))
   \<and> authMiddleware 10 (\<lambda>n. False) example_db
        \<lparr>ar_Path = ''/docs/index.html'', ar_APIKey = ''wrong''\<rparr> = (example_db, Forwarded None)
   \<and> ''/api/kizs'' \<notin> set publicPaths
   \<and> Some ''key-1'' \<in> set (map usr_api_key (users example_db))
   \<and> authMiddleware 10 (\<lambda>n. n = 0) example_db
        \<lparr>ar_Path = ''/api/kizs'', ar_APIKey = ''key-1''\<rparr>
      = (example_db, Answered \<lparr>status_code = 401, body = Text NotAuthorized\<rparr>)"
  by (simp add: authMiddleware_def publicPaths_def HasPrefix_def example_db_def
        example_user_def select_user_id_by_api_key_def)

section \<open>Properties of payment creation\<close>

text \<open>
  Claim C4, as amended. Both functions compare the amount with zero by \<open>amount <= 0\<close>.
  For an amount that the comparison lets pass (every positive amount), a non-empty
  order id and a context that is not cancelled, \<open>createPayment\<close> returns the URL of
  the specification's form with the signature \<open>hash(login:amount:id:password)\<close>, the
  amount printed by \<open>%g\<close> in both places. \<open>createPaymentHandler\<close>, for a POST
  request with such an amount of a registered user whose payment row the database
  stores, returns the URL of the same form for the id of the new row, followed by
  \<open>&Desc=...&Culture=ru\<close>; the text it signs is the one that the callback handler
  expects for that amount and id. Signature and URL depend on the merchant login, the
  amount, the id and the password only. Every amount that is zero or negative is
  rejected and gets no URL: \<open>createPayment\<close> returns the error of a non-positive
  amount with an empty URL, and \<open>createPaymentHandler\<close> answers 400 and leaves the
  database as it was.
\<close>

theorem payment_creation_signature_and_url:
  "(\<not> float64_le (prd_Amount requestData) (Finite 0) \<and> prd_OrderID requestData \<noteq> []
      \<and> \<not> cancelled \<longrightarrow>
      createPayment sha256_hex fmt_g config cancelled requestData =
        (\<lparr>resp_Status = ''success'', resp_Message = URLFormed,
          resp_PaymentURL =
            gateway_url (cfg_RobokassaLogin config) (fmt_g (prd_Amount requestData))
              (prd_OrderID requestData)
              (sha256_hex (signed_text (cfg_RobokassaLogin config)
                 (fmt_g (prd_Amount requestData)) (prd_OrderID requestData)
                 (cfg_RobokassaPassword config)))\<rparr>, None))
   \<and> (\<not> float64_le (pr_Amount request) (Finite 0)
        \<and> select_user_id_by_telegram (faults 0) (pr_TelegramID request) db = Inr userID
        \<and> insert_user_payment (faults 1) now userID (pr_Amount request) db
            = Inr (db', row) \<longrightarrow>
      createPaymentHandler sha1_hex fmt_g rk now faults db ''POST'' (Some request) =
        (db', \<lparr>status_code = 200,
               body = JsonPayment (pay_id row)
                 (gateway_url (RobokassaLogin rk) (fmt_g (pr_Amount request))
                    (fmt_d (pay_id row))
                    (sha1_hex (signed_text (RobokassaLogin rk) (fmt_g (pr_Amount request))
                       (fmt_d (pay_id row)) (RobokassaPass rk)))
                  @ ''&Desc='' @ payment_description @ ''&Culture=ru'')\<rparr>)
      \<and> signed_text (RobokassaLogin rk) (fmt_g (pr_Amount request)) (fmt_d (pay_id row))
            (RobokassaPass rk)
          = callback_signature rk (fmt_g (pr_Amount request)) (fmt_d (pay_id row)))
   \<and> (float64_le (prd_Amount requestData) (Finite 0) \<longrightarrow>
      createPayment sha256_hex fmt_g config cancelled requestData =
        (\<lparr>resp_Status = ''error'', resp_Message = IncorrectAmount, resp_PaymentURL = []\<rparr>,
         Some AmountNotPositive))
   \<and> (float64_le (pr_Amount request) (Finite 0) \<longrightarrow>
      createPaymentHandler sha1_hex fmt_g rk now faults db ''POST'' (Some request) =
        (db, \<lparr>status_code = 400, body = JsonError BadAmount\<rparr>))"
proof (intro conjI impI)
  assume "\<not> float64_le (prd_Amount requestData) (Finite 0) \<and> prd_OrderID requestData \<noteq> []
      \<and> \<not> cancelled"
  then show "createPayment sha256_hex fmt_g config cancelled requestData =
        (\<lparr>resp_Status = ''success'', resp_Message = URLFormed,
          resp_PaymentURL =
            gateway_url (cfg_RobokassaLogin config) (fmt_g (prd_Amount requestData))
              (prd_OrderID requestData)
              (sha256_hex (signed_text (cfg_RobokassaLogin config)
                 (fmt_g (prd_Amount requestData)) (prd_OrderID requestData)
                 (cfg_RobokassaPassword config)))\<rparr>, None)"
    by (simp add: createPayment_def gateway_url_def signed_text_def)
next
  assume ok: "\<not> float64_le (pr_Amount request) (Finite 0)
        \<and> select_user_id_by_telegram (faults 0) (pr_TelegramID request) db = Inr userID
        \<and> insert_user_payment (faults 1) now userID (pr_Amount request) db = Inr (db', row)"
  then show "createPaymentHandler sha1_hex fmt_g rk now faults db ''POST'' (Some request) =
        (db', \<lparr>status_code = 200,
               body = JsonPayment (pay_id row)
                 (gateway_url (RobokassaLogin rk) (fmt_g (pr_Amount request))
                    (fmt_d (pay_id row))
                    (sha1_hex (signed_text (RobokassaLogin rk) (fmt_g (pr_Amount request))
                       (fmt_d (pay_id row)) (RobokassaPass rk)))
                  @ ''&Desc='' @ payment_description @ ''&Culture=ru'')\<rparr>)"
    by (simp add: createPaymentHandler_def Let_def gateway_url_def signed_text_def)
  show "signed_text (RobokassaLogin rk) (fmt_g (pr_Amount request)) (fmt_d (pay_id row))
            (RobokassaPass rk)
          = callback_signature rk (fmt_g (pr_Amount request)) (fmt_d (pay_id row))"
    by (simp add: signed_text_def callback_signature_def)
next
  assume "float64_le (prd_Amount requestData) (Finite 0)"
  then show "createPayment sha256_hex fmt_g config cancelled requestData =
        (\<lparr>resp_Status = ''error'', resp_Message = IncorrectAmount, resp_PaymentURL = []\<rparr>,
         Some AmountNotPositive)"
    by (simp add: createPayment_def)
next
  assume "float64_le (pr_Amount request) (Finite 0)"
  then show "createPaymentHandler sha1_hex fmt_g rk now faults db ''POST'' (Some request) =
        (db, \<lparr>status_code = 400, body = JsonError BadAmount\<rparr>)"
    by (simp add: createPaymentHandler_def)
qed

theorem payment_creation_signature_and_url_witness:
  "createPayment example_digest example_fmt_g
       \<lparr>cfg_RobokassaLogin = ''shop'', cfg_RobokassaPassword = ''secret''\<rparr> False
       \<lparr>prd_Amount = Finite 200, prd_OrderID = ''7''\<rparr>
     = (\<lparr>resp_Status = ''success'', resp_Message = URLFormed,
         resp_PaymentURL =
           ''https://auth.robokassa.ru/Merchant/Index.aspx?MerchantLogin=shop&OutSum=200&InvId=7&SignatureValue=sha1(shop:200:7:secret)''\<rparr>,
        None)
   \<and> snd (createPaymentHandler example_digest example_fmt_g example_config 10 (\<lambda>n. False)
        example_main_db ''POST''
        (Some \<lparr>pr_TelegramID = 123456789, pr_Amount = Finite 200, pr_ReturnURL = []\<rparr>))
     = \<lparr>status_code = 200,
        body = JsonPayment 6
          (''https://auth.robokassa.ru/Merchant/Index.aspx?MerchantLogin=shop&OutSum=200&InvId=6&SignatureValue=sha1(shop:200:6:secret)&Desc=''
           @ payment_description @ ''&Culture=ru'')\<rparr>
   \<and> createPayment example_digest example_fmt_g
       \<lparr>cfg_RobokassaLogin = ''shop'', cfg_RobokassaPassword = ''secret''\<rparr> False
       \<lparr>prd_Amount = Finite (- 200), prd_OrderID = ''7''\<rparr>
     = (\<lparr>resp_Status = ''error'', resp_Message = IncorrectAmount, resp_PaymentURL = []\<rparr>,
        Some AmountNotPositive)
   \<and> createPaymentHandler example_digest example_fmt_g example_config 10 (\<lambda>n. False)
        example_main_db ''POST''
        (Some \<lparr>pr_TelegramID = 123456789, pr_Amount = Finite (- 200), pr_ReturnURL = []\<rparr>)
     = (example_main_db, \<lparr>status_code = 400, body = JsonError BadAmount\<rparr>)"
proof -
  let ?row = "\<lparr>pay_id = 6, pay_user_id = Some 1, pay_order_id = None, pay_amount = Finite 200,
      pay_currency = ''RUB'', pay_status = ''pending'', pay_robokassa_id = None,
      pay_transaction_id = None, pay_created_at = 10, pay_completed_at = None\<rparr>"
  let ?db' = "example_main_db\<lparr>payments := payments example_main_db @ [?row],
      seqs := (seqs example_main_db)\<lparr>payments_seq := 6\<rparr>\<rparr>"
  have sel: "select_user_id_by_telegram False 123456789 example_main_db = Inr 1"
    by (simp add: select_user_id_by_telegram_def example_main_db_def example_user_def)
  have ins: "insert_user_payment False 10 1 (Finite 200) example_main_db = Inr (?db', ?row)"
    by (simp add: insert_user_payment_def Let_def example_main_db_def example_user_def
          example_user_payment_def has_user_id_def)
  have six: "fmt_d 6 = ''6''" and seven: "example_fmt_g (Finite 200) = ''200''"
    by (simp_all add: fmt_d_def example_fmt_g_def digit_char_def)
  have paid: "createPayment example_digest example_fmt_g
       \<lparr>cfg_RobokassaLogin = ''shop'', cfg_RobokassaPassword = ''secret''\<rparr> False
       \<lparr>prd_Amount = Finite 200, prd_OrderID = ''7''\<rparr>
     = (\<lparr>resp_Status = ''success'', resp_Message = URLFormed,
         resp_PaymentURL =
           ''https://auth.robokassa.ru/Merchant/Index.aspx?MerchantLogin=shop&OutSum=200&InvId=7&SignatureValue=sha1(shop:200:7:secret)''\<rparr>,
        None)
   \<and> snd (createPaymentHandler example_digest example_fmt_g example_config 10 (\<lambda>n. False)
        example_main_db ''POST''
        (Some \<lparr>pr_TelegramID = 123456789, pr_Amount = Finite 200, pr_ReturnURL = []\<rparr>))
     = \<lparr>status_code = 200,
        body = JsonPayment 6
          (''https://auth.robokassa.ru/Merchant/Index.aspx?MerchantLogin=shop&OutSum=200&InvId=6&SignatureValue=sha1(shop:200:6:secret)&Desc=''
           @ payment_description @ ''&Culture=ru'')\<rparr>"
    using payment_creation_signature_and_url
      [of "\<lparr>prd_Amount = Finite 200, prd_OrderID = ''7''\<rparr>" False example_digest example_fmt_g
          "\<lparr>cfg_RobokassaLogin = ''shop'', cfg_RobokassaPassword = ''secret''\<rparr>"
          "\<lparr>pr_TelegramID = 123456789, pr_Amount = Finite 200, pr_ReturnURL = []\<rparr>"
          "\<lambda>n. False" example_main_db 1 10 ?db' ?row example_digest example_config]
      sel ins
    by (simp add: six seven gateway_url_def signed_text_def example_digest_def
          example_config_def)
  have refused: "createPayment example_digest example_fmt_g
       \<lparr>cfg_RobokassaLogin = ''shop'', cfg_RobokassaPassword = ''secret''\<rparr> False
       \<lparr>prd_Amount = Finite (- 200), prd_OrderID = ''7''\<rparr>
     = (\<lparr>resp_Status = ''error'', resp_Message = IncorrectAmount, resp_PaymentURL = []\<rparr>,
        Some AmountNotPositive)
   \<and> createPaymentHandler example_digest example_fmt_g example_config 10 (\<lambda>n. False)
        example_main_db ''POST''
        (Some \<lparr>pr_TelegramID = 123456789, pr_Amount = Finite (- 200), pr_ReturnURL = []\<rparr>)
     = (example_main_db, \<lparr>status_code = 400, body = JsonError BadAmount\<rparr>)"
    using payment_creation_signature_and_url
      [of "\<lparr>prd_Amount = Finite (- 200), prd_OrderID = ''7''\<rparr>" False example_digest example_fmt_g
          "\<lparr>cfg_RobokassaLogin = ''shop'', cfg_RobokassaPassword = ''secret''\<rparr>"
          "\<lparr>pr_TelegramID = 123456789, pr_Amount = Finite (- 200), pr_ReturnURL = []\<rparr>"
          "\<lambda>n. False" example_main_db 1 10 ?db' ?row example_digest example_config]
    by simp
  show ?thesis
    using paid refused by blast
qed

text \<open>
  Claim C4 as stated fails: not every amount gets a URL. For the amounts 0 and -200
  \<open>createPayment\<close> returns an error and no URL, and \<open>createPaymentHandler\<close>
  answers 400.
\<close>

theorem payment_creation_zero_amount_counterexample:
  "createPayment example_digest example_fmt_g
       \<lparr>cfg_RobokassaLogin = ''shop'', cfg_RobokassaPassword = ''secret''\<rparr> False
       \<lparr>prd_Amount = Finite 0, prd_OrderID = ''7''\<rparr>
     = (\<lparr>resp_Status = ''error'', resp_Message = IncorrectAmount, resp_PaymentURL = []\<rparr>,
        Some AmountNotPositive)
   \<and> createPaymentHandler example_digest example_fmt_g example_config 10 (\<lambda>n. False)
        example_main_db ''POST''
        (Some \<lparr>pr_TelegramID = 123456789, pr_Amount = Finite 0, pr_ReturnURL = []\<rparr>)
     = (example_main_db, \<lparr>status_code = 400, body = JsonError BadAmount\<rparr>)
   \<and> createPayment example_digest example_fmt_g
       \<lparr>cfg_RobokassaLogin = ''shop'', cfg_RobokassaPassword = ''secret''\<rparr> False
       \<lparr>prd_Amount = Finite (- 200), prd_OrderID = ''7''\<rparr>
     = (\<lparr>resp_Status = ''error'', resp_Message = IncorrectAmount, resp_PaymentURL = []\<rparr>,
        Some AmountNotPositive)
   \<and> createPaymentHandler example_digest example_fmt_g example_config 10 (\<lambda>n. False)
        example_main_db ''POST''
        (Some \<lparr>pr_TelegramID = 123456789, pr_Amount = Finite (- 200), pr_ReturnURL = []\<rparr>)
     = (example_main_db, \<lparr>status_code = 400, body = JsonError BadAmount\<rparr>)"
  by (simp add: createPayment_def createPaymentHandler_def)

section \<open>Properties of registration\<close>

lemma filter_key_absent:
  "k \<notin> set (map f xs) \<Longrightarrow> filter (\<lambda>x. f x = k) xs = []"
  by (induction xs) auto

lemma filter_telegram_updated:
  "filter (\<lambda>u. usr_telegram_id u = t)
     (map (\<lambda>u. if usr_telegram_id u = t
               then u\<lparr>usr_inn := i, usr_email := e, usr_last_active := n, usr_api_key := k\<rparr>
               else u) us)
   = map (\<lambda>u. u\<lparr>usr_inn := i, usr_email := e, usr_last_active := n, usr_api_key := k\<rparr>)
       (filter (\<lambda>u. usr_telegram_id u = t) us)"
  by (induction us) simp_all

lemma filter_other_updated:
  "filter (\<lambda>u. usr_telegram_id u \<noteq> t)
     (map (\<lambda>u. if usr_telegram_id u = t
               then u\<lparr>usr_inn := i, usr_email := e, usr_last_active := n, usr_api_key := k\<rparr>
               else u) us)
   = filter (\<lambda>u. usr_telegram_id u \<noteq> t) us"
  by (induction us) simp_all

text \<open>
  After a successful call of \<open>registerUserHandler\<close> the table has exactly one row with
  the request's telegram id, and its id is the one the call returned.
\<close>

lemma registerUserHandler_registered:
  assumes "registerUserHandler key now faults db ''POST'' (Some rq)
             = (db1, \<lparr>status_code = 200, body = JsonUser uid key\<rparr>)"
  shows "\<exists>u. filter (\<lambda>u. usr_telegram_id u = ur_TelegramID rq) (users db1) = [u]
             \<and> usr_id u = uid \<and> usr_api_key u = Some key"
proof -
  let ?t = "ur_TelegramID rq"
  from assms have valid: "\<not> (?t \<le> 0 \<or> ur_INN rq = [])"
    by (auto simp: registerUserHandler_def split: if_splits)
  from assms valid obtain found where sel: "select_user_exists (faults 0) ?t db = Inr found"
    by (auto simp: registerUserHandler_def split: sum.splits)
  then have found: "found \<longleftrightarrow> ?t \<in> set (map usr_telegram_id (users db))"
    by (auto simp: select_user_exists_def split: if_splits)
  show ?thesis
  proof (cases found)
    case True
    with assms valid sel
    have upd: "update_user_registration (faults 1) (ur_INN rq) (ur_Email rq) now key ?t db
                 = Inr (db1, uid)"
      by (auto simp: registerUserHandler_def split: sum.splits)
    then obtain u where hit: "filter (\<lambda>u. usr_telegram_id u = ?t) (users db) = [u]"
      and uid: "uid = usr_id u"
      and db1: "users db1 = map (\<lambda>u. if usr_telegram_id u = ?t
                  then u\<lparr>usr_inn := ur_INN rq, usr_email := ur_Email rq,
                         usr_last_active := now, usr_api_key := Some key\<rparr>
                  else u) (users db)"
      by (auto simp: update_user_registration_def split: if_splits list.splits)
    show ?thesis
      unfolding db1 filter_telegram_updated hit using uid by simp
  next
    case False
    with assms valid sel
    have ins: "insert_user (faults 1) now
                 \<lparr>usr_id = 0, usr_first_name = None, usr_last_name = None,
                  usr_middle_name = None, usr_inn = ur_INN rq, usr_telegram_id = ?t,
                  usr_email = ur_Email rq, usr_username = None, usr_api_key = Some key,
                  usr_registered_at = now, usr_last_active = now\<rparr> db = Inr (db1, uid)"
      by (auto simp: registerUserHandler_def split: sum.splits)
    from False found have none: "filter (\<lambda>u. usr_telegram_id u = ?t) (users db) = []"
      using filter_key_absent [of ?t usr_telegram_id "users db"] by simp
    from ins show ?thesis
      by (auto simp: insert_user_def Let_def none split: if_splits)
  qed
qed

text \<open>
  \<open>registerUserHandler\<close> is an upsert: after a successful registration, a second one
  with the same telegram id and a key that no row holds yet returns the same user id
  with the new key, when the database executes its two statements.
\<close>

lemma registerUserHandler_twice_same_id:
  assumes first: "registerUserHandler key1 now1 faults1 db ''POST'' (Some rq)
             = (db1, \<lparr>status_code = 200, body = JsonUser uid key1\<rparr>)"
    and same: "ur_TelegramID rq' = ur_TelegramID rq" and inn: "ur_INN rq' \<noteq> []"
    and fresh: "Some key2 \<notin> set (map usr_api_key (users db1))"
    and ok: "\<not> faults2 0" "\<not> faults2 1"
  shows "\<exists>db2. registerUserHandler key2 now2 faults2 db1 ''POST'' (Some rq')
             = (db2, \<lparr>status_code = 200, body = JsonUser uid key2\<rparr>)
           \<and> key2 \<noteq> key1"
proof -
  let ?t = "ur_TelegramID rq"
  from first have pos: "\<not> ?t \<le> 0"
    by (auto simp: registerUserHandler_def split: if_splits)
  from registerUserHandler_registered [OF first] obtain u
    where hit: "filter (\<lambda>u. usr_telegram_id u = ?t) (users db1) = [u]"
      and u: "usr_id u = uid" "usr_api_key u = Some key1"
    by blast
  have "u \<in> set (filter (\<lambda>u. usr_telegram_id u = ?t) (users db1))"
    by (simp add: hit)
  then have mem: "u \<in> set (users db1)" by simp
  then have "?t \<in> set (map usr_telegram_id (users db1))"
    using \<open>u \<in> set (filter (\<lambda>u. usr_telegram_id u = ?t) (users db1))\<close> by force
  then have sel: "select_user_exists False ?t db1 = Inr True"
    by (simp add: select_user_exists_def)
  have others: "Some key2 \<notin> set (map usr_api_key
                  (filter (\<lambda>u. usr_telegram_id u \<noteq> ?t) (users db1)))"
    using fresh by auto
  have ne: "key2 \<noteq> key1"
    using fresh mem u(2) by force
  have "update_user_registration False (ur_INN rq') (ur_Email rq') now2 key2 ?t db1
          = Inr (db1\<lparr>users := map (\<lambda>u. if usr_telegram_id u = ?t
                  then u\<lparr>usr_inn := ur_INN rq', usr_email := ur_Email rq',
                         usr_last_active := now2, usr_api_key := Some key2\<rparr>
                  else u) (users db1)\<rparr>, uid)"
    unfolding update_user_registration_def using hit others u(1) by simp
  then show ?thesis
    using pos inn sel ok ne by (simp add: registerUserHandler_def same)
qed

text \<open>
  \<open>handleUserRegistration\<close> only inserts: for a telegram id that a row already has,
  the INSERT violates the unique constraint, and the handler answers 500 and leaves
  the database as it was.
\<close>

lemma handleUserRegistration_known_user:
  assumes "rr_TelegramID rq \<in> set (map usr_telegram_id (users db))"
  shows "fst (handleUserRegistration key now faults db httpMethod (Some rq)) = db
         \<and> status_code (snd (handleUserRegistration key now faults db httpMethod (Some rq)))
             \<in> {405, 400, 500}"
  using assms
  by (simp add: handleUserRegistration_def Begin_def Rollback_def createUserTx_def
        insert_user_def Let_def)

text \<open>
  Claim C6 on \<open>handleUserRegistration\<close>: registering twice with telegram id 123456789
  and tax id 7707083893. The first call creates user 1; the second call is answered
  500 and returns no user id.
\<close>

theorem handleUserRegistration_twice_fails:
  "handleUserRegistration ''key-1'' 10 (\<lambda>n. False) empty_db ''POST''
       (Some example_registration)
     = (registered_db, \<lparr>status_code = 201, body = JsonUser 1 ''key-1''\<rparr>)
   \<and> handleUserRegistration ''key-2'' 20 (\<lambda>n. False) registered_db ''POST''
       (Some example_registration)
     = (registered_db, \<lparr>status_code = 500, body = JsonError RegistrationFailed\<rparr>)"
  by (simp add: handleUserRegistration_def Begin_def Commit_def Rollback_def
        createUserTx_def insert_user_def Let_def empty_db_def registered_db_def
        example_registration_def)

text \<open>
  The same two registrations through \<open>registerUserHandler\<close>: user 1 both times, the
  key of the second call in place of the first.
\<close>

lemma registerUserHandler_twice_example:
  "snd (registerUserHandler ''key-1'' 10 (\<lambda>n. False) empty_db ''POST''
       (Some \<lparr>ur_TelegramID = 123456789, ur_INN = ''7707083893'', ur_Email = []\<rparr>))
     = \<lparr>status_code = 200, body = JsonUser 1 ''key-1''\<rparr>
   \<and> snd (registerUserHandler ''key-2'' 20 (\<lambda>n. False)
       (fst (registerUserHandler ''key-1'' 10 (\<lambda>n. False) empty_db ''POST''
          (Some \<lparr>ur_TelegramID = 123456789, ur_INN = ''7707083893'', ur_Email = []\<rparr>)))
       ''POST'' (Some \<lparr>ur_TelegramID = 123456789, ur_INN = ''7707083893'', ur_Email = []\<rparr>))
     = \<lparr>status_code = 200, body = JsonUser 1 ''key-2''\<rparr>"
  by (simp add: registerUserHandler_def select_user_exists_def insert_user_def
        update_user_registration_def Let_def empty_db_def)

section \<open>Properties of the validation before a payment is stored\<close>



lemma select_user_id_by_telegram_unknown:
  assumes "telegramID \<notin> set (map usr_telegram_id (users db))"
  shows "select_user_id_by_telegram fault telegramID db
           = (if fault then Inl ErrFault else Inl ErrNoRows)"
  using filter_key_absent [OF assms] by (simp add: select_user_id_by_telegram_def)

lemma getUserID_unknown:
  assumes "telegramID \<notin> set (map usr_telegram_id (users db))"
  shows "getUserID fault telegramID db = (if fault then Inl ErrFault else Inr 0)"
  using select_user_id_by_telegram_unknown [OF assms] by (simp add: getUserID_def)





section \<open>Properties of order creation\<close>

lemma insert_order_item_orders:
  "insert_order_item fault orderID item db = Inr db' \<Longrightarrow> orders db' = orders db"
  by (auto simp: insert_order_item_def Let_def split: if_splits)

lemma insert_order_item_rows:
  assumes "insert_order_item fault orderID item db = Inr db'"
  shows "\<exists>row. order_items db' = order_items db @ [row]
           \<and> item_columns row
               = (orderID, item_GTIN item, item_Quantity item, item_Price item)"
  using assms by (auto simp: insert_order_item_def item_columns_def Let_def split: if_splits)

lemma insert_items_orders:
  "insert_items faults k orderID items db = Inr db' \<Longrightarrow> orders db' = orders db"
proof (induction items arbitrary: k db)
  case Nil
  then show ?case by simp
next
  case (Cons item rest)
  from Cons.prems obtain mid where
    one: "insert_order_item (faults k) orderID item db = Inr mid"
    and more: "insert_items faults (k + 1) orderID rest mid = Inr db'"
    by (auto split: sum.splits)
  from Cons.IH [OF more] insert_order_item_orders [OF one] show ?case by simp
qed

lemma insert_items_rows:
  assumes "insert_items faults k orderID items db = Inr db'"
  shows "\<exists>rows. order_items db' = order_items db @ rows
           \<and> map item_columns rows
               = map (\<lambda>item. (orderID, item_GTIN item, item_Quantity item, item_Price item))
                   items"
  using assms
proof (induction items arbitrary: k db)
  case Nil
  then show ?case by simp
next
  case (Cons item rest)
  from Cons.prems obtain mid where
    one: "insert_order_item (faults k) orderID item db = Inr mid"
    and more: "insert_items faults (k + 1) orderID rest mid = Inr db'"
    by (auto split: sum.splits)
  from insert_order_item_rows [OF one] obtain row where
    row: "order_items mid = order_items db @ [row]"
      "item_columns row = (orderID, item_GTIN item, item_Quantity item, item_Price item)"
    by blast
  from Cons.IH [OF more] obtain rows where
    rows: "order_items db' = order_items mid @ rows"
      "map item_columns rows
         = map (\<lambda>item. (orderID, item_GTIN item, item_Quantity item, item_Price item)) rest"
    by blast
  have "order_items db' = order_items db @ (row # rows)"
    using row(1) rows(1) by simp
  moreover have "map item_columns (row # rows)
      = map (\<lambda>item. (orderID, item_GTIN item, item_Quantity item, item_Price item))
          (item # rest)"
    using row(2) rows(2) by simp
  ultimately show ?case
    by blast
qed

lemma insert_order_new:
  assumes "insert_order fault now ord db = Inr (db', newID)"
  shows "newID \<notin> set (map ord_id (orders db))"
    and "newID \<in> set (map ord_id (orders db'))"
  using assms by (auto simp: insert_order_def Let_def split: if_splits)

lemma insert_order_rows:
  assumes "insert_order fault now ord db = Inr (db', newID)"
  shows "orders db' = orders db @
           [\<lparr>ord_id = newID, ord_user_id = order_UserID ord,
             ord_total_amount = order_TotalAmount ord, ord_status = order_Status ord,
             ord_payment_id = order_PaymentID ord, ord_created_at = now,
             ord_updated_at = now\<rparr>]"
    and "order_items db' = order_items db"
  using assms by (auto simp: insert_order_def Let_def split: if_splits)

lemma createOrderTx_new:
  assumes "createOrderTx faults k now tx ord items = Inr (tx', ord')"
  shows "order_ID ord' \<notin> set (map ord_id (orders tx))"
    and "order_ID ord' \<in> set (map ord_id (orders tx'))"
proof -
  from assms obtain mid newID where
    head: "insert_order (faults k) now ord tx = Inr (mid, newID)"
    and rows: "insert_items faults (k + 1) newID items mid = Inr tx'"
    and ord': "ord' = ord\<lparr>order_ID := newID, order_CreatedAt := now\<rparr>"
    by (auto simp: createOrderTx_def split: sum.splits)
  show "order_ID ord' \<notin> set (map ord_id (orders tx))"
    using insert_order_new(1) [OF head] ord' by simp
  show "order_ID ord' \<in> set (map ord_id (orders tx'))"
    using insert_order_new(2) [OF head] insert_items_orders [OF rows] ord' by simp
qed

lemma createOrderTx_rows:
  assumes "createOrderTx faults k now tx ord items = Inr (tx', ord')"
  shows "orders tx' = orders tx @
           [\<lparr>ord_id = order_ID ord', ord_user_id = order_UserID ord,
             ord_total_amount = order_TotalAmount ord, ord_status = order_Status ord,
             ord_payment_id = order_PaymentID ord, ord_created_at = now,
             ord_updated_at = now\<rparr>]"
    and "\<exists>rows. order_items tx' = order_items tx @ rows
           \<and> map item_columns rows
               = map (\<lambda>item. (order_ID ord', item_GTIN item, item_Quantity item,
                                 item_Price item)) items"
proof -
  from assms obtain mid newID where
    head: "insert_order (faults k) now ord tx = Inr (mid, newID)"
    and rows: "insert_items faults (k + 1) newID items mid = Inr tx'"
    and ord': "ord' = ord\<lparr>order_ID := newID, order_CreatedAt := now\<rparr>"
    by (auto simp: createOrderTx_def split: sum.splits)
  show "orders tx' = orders tx @
           [\<lparr>ord_id = order_ID ord', ord_user_id = order_UserID ord,
             ord_total_amount = order_TotalAmount ord, ord_status = order_Status ord,
             ord_payment_id = order_PaymentID ord, ord_created_at = now,
             ord_updated_at = now\<rparr>]"
    using insert_order_rows(1) [OF head] insert_items_orders [OF rows] ord' by simp
  show "\<exists>rows. order_items tx' = order_items tx @ rows
           \<and> map item_columns rows
               = map (\<lambda>item. (order_ID ord', item_GTIN item, item_Quantity item,
                                 item_Price item)) items"
    using insert_items_rows [OF rows] insert_order_rows(2) [OF head] ord' by simp
qed

text \<open>
  The outcomes of \<open>handleKIZRequest\<close> once the request is decoded: it is rejected
  and the database is as it was, or the order is created.
\<close>

lemma handleKIZRequest_cases:
  assumes "handleKIZRequest ext now faults db (Some request) = (db', resp, tr)"
  obtains
    (rejected) "db' = db" "status_code resp \<in> {500, 401}" "ExternalCall \<notin> set tr"
      "\<And>ext'. handleKIZRequest ext' now faults db (Some request) = (db', resp, tr)"
  | (created) userID ord0 items tx' ord2 where
      "\<not> faults 0" "getUserID (faults 1) (ko_TelegramID request) db = Inr userID"
      "userID \<noteq> 0" "\<not> faults (3 + length items)"
      "prepareOrder (ko_TelegramID request) (ko_GTINs request) = (ord0, items)"
      "createOrderTx faults 2 now db (ord0\<lparr>order_UserID := userID\<rparr>) items = Inr (tx', ord2)"
      "db' = tx'"
      "resp = \<lparr>status_code = 201,
               body = JsonOrder (order_ID ord2) ''created''
                        (fst (ext \<lparr>committed = tx', in_tx = False\<rparr>
                                (ko_GTINs request) (ko_INN request)))\<rparr>"
      "tr = [TxBegin, TxWork, TxCommit, ExternalCall, Reply, DeferredRollback]"
proof -
  note defs = handleKIZRequest_def Begin_def Commit_def Rollback_def
  obtain ord0 items where prep:
    "prepareOrder (ko_TelegramID request) (ko_GTINs request) = (ord0, items)"
    by (cases "prepareOrder (ko_TelegramID request) (ko_GTINs request)")
  show thesis
  proof (cases "faults 0")
    case True
    with assms show thesis by (intro rejected) (auto simp: defs)
  next
    case begun: False
    show thesis
    proof (cases "getUserID (faults 1) (ko_TelegramID request) db")
      case (Inl err)
      with assms begun show thesis
        by (intro rejected) (auto simp: defs)
    next
      case (Inr userID)
      show thesis
      proof (cases "userID = 0")
        case True
        with assms begun Inr show thesis
          by (intro rejected) (auto simp: defs)
      next
        case known: False
        show thesis
        proof (cases "createOrderTx faults 2 now db (ord0\<lparr>order_UserID := userID\<rparr>) items")
          case (Inl err)
          with assms begun Inr known prep show thesis
            by (intro rejected) (auto simp: defs)
        next
          case stored: (Inr pair)
          obtain tx' ord2 where pair: "pair = (tx', ord2)" by (cases pair)
          obtain kizs failed where call:
            "ext \<lparr>committed = tx', in_tx = False\<rparr> (ko_GTINs request) (ko_INN request)
               = (kizs, failed)"
            by (cases "ext \<lparr>committed = tx', in_tx = False\<rparr> (ko_GTINs request)
                         (ko_INN request)")
          show thesis
          proof (cases "faults (3 + length items)")
            case True
            with assms begun Inr known prep stored pair show thesis
              by (intro rejected) (auto simp: defs)
          next
            case False
            with assms begun Inr known prep stored pair call show thesis
              by (intro created [of userID items ord0 tx' ord2])
                 (auto simp: defs)
          qed
        qed
      qed
    qed
  qed
qed

lemma handleKIZRequest_created:
  assumes "\<not> faults 0" "getUserID (faults 1) (ko_TelegramID request) db = Inr userID"
    and "userID \<noteq> 0" "\<not> faults (3 + length items)"
    and "prepareOrder (ko_TelegramID request) (ko_GTINs request) = (ord0, items)"
    and "createOrderTx faults 2 now db (ord0\<lparr>order_UserID := userID\<rparr>) items = Inr (tx', ord2)"
  shows "handleKIZRequest ext now faults db (Some request)
           = (tx', \<lparr>status_code = 201,
                     body = JsonOrder (order_ID ord2) ''created''
                              (fst (ext \<lparr>committed = tx', in_tx = False\<rparr>
                                      (ko_GTINs request) (ko_INN request)))\<rparr>,
              [TxBegin, TxWork, TxCommit, ExternalCall, Reply, DeferredRollback])"
  using assms
  by (simp add: handleKIZRequest_def Begin_def Commit_def Rollback_def split_beta)

text \<open>
  Claim C5. Whenever \<open>handleKIZRequest\<close> does not answer 201, the database is as it
  was before the request: no order and no item of the request is in it. In particular,
  when the header has been inserted in the transaction and the insertion of an item
  fails, the handler answers 500, and the id given to the header is the id of no
  order of the database.
\<close>

theorem order_creation_all_or_nothing:
  "(status_code (fst (snd (handleKIZRequest ext now faults db decoded))) \<noteq> 201 \<longrightarrow>
      fst (handleKIZRequest ext now faults db decoded) = db)
   \<and> (\<not> faults 0
       \<and> getUserID (faults 1) (ko_TelegramID request) db = Inr userID \<and> userID \<noteq> 0
       \<and> prepareOrder (ko_TelegramID request) (ko_GTINs request) = (ord0, items)
       \<and> insert_order (faults 2) now (ord0\<lparr>order_UserID := userID\<rparr>) db = Inr (tx1, newID)
       \<and> insert_items faults 3 newID items tx1 = Inl err \<longrightarrow>
      handleKIZRequest ext now faults db (Some request)
        = (db, \<lparr>status_code = 500, body = JsonError OrderCreateFailed\<rparr>,
           [TxBegin, TxWork, Reply, DeferredRollback])
      \<and> newID \<in> set (map ord_id (orders tx1))
      \<and> newID \<notin> set (map ord_id (orders db)))"
proof (intro conjI impI)
  assume no: "status_code (fst (snd (handleKIZRequest ext now faults db decoded))) \<noteq> 201"
  show "fst (handleKIZRequest ext now faults db decoded) = db"
  proof (cases decoded)
    case None
    then show ?thesis by (simp add: handleKIZRequest_def)
  next
    case (Some request)
    obtain db' resp tr where run: "handleKIZRequest ext now faults db (Some request) = (db', resp, tr)"
      by (cases "handleKIZRequest ext now faults db (Some request)")
    from run show ?thesis
    proof (cases rule: handleKIZRequest_cases)
      case rejected
      with run Some show ?thesis by simp
    next
      case created
      with run no Some show ?thesis by simp
    qed
  qed
next
  assume h: "\<not> faults 0
       \<and> getUserID (faults 1) (ko_TelegramID request) db = Inr userID \<and> userID \<noteq> 0
       \<and> prepareOrder (ko_TelegramID request) (ko_GTINs request) = (ord0, items)
       \<and> insert_order (faults 2) now (ord0\<lparr>order_UserID := userID\<rparr>) db = Inr (tx1, newID)
       \<and> insert_items faults 3 newID items tx1 = Inl err"
  then have "createOrderTx faults 2 now db (ord0\<lparr>order_UserID := userID\<rparr>) items = Inl err"
    by (simp add: createOrderTx_def)
  with h show "handleKIZRequest ext now faults db (Some request)
        = (db, \<lparr>status_code = 500, body = JsonError OrderCreateFailed\<rparr>,
           [TxBegin, TxWork, Reply, DeferredRollback])"
    by (simp add: handleKIZRequest_def Begin_def Rollback_def)
  from h have head: "insert_order (faults 2) now (ord0\<lparr>order_UserID := userID\<rparr>) db
                       = Inr (tx1, newID)" by simp
  show "newID \<in> set (map ord_id (orders tx1))"
    by (rule insert_order_new(2) [OF head])
  show "newID \<notin> set (map ord_id (orders db))"
    by (rule insert_order_new(1) [OF head])
qed

text \<open>
  Claim C8. The reply of \<open>handleKIZRequest\<close> depends on the external service only
  through what the service answers in one session: the one in which no transaction is
  open and the committed database is the database the handler ends with. When the
  reply is 201, that committed database holds the new order row, with the user of the
  request, the status \<open>created\<close> and the total of the assembled order, and one new
  item row for each line of the request, with the id of the order, the line's code and
  count and the unit price; the reply carries the id of the order and the codes the
  service gave in that session. Whatever the service answers, failure included, the
  database the handler ends with is the same. When the reply is not 201 the service
  has no part in the outcome, and the database is as it was.
\<close>

theorem commit_before_external_call:
  assumes "handleKIZRequest ext now faults db decoded = (db', resp, tr)"
  shows "(\<forall>ext'. ext' \<lparr>committed = db', in_tx = False\<rparr>
                   = ext \<lparr>committed = db', in_tx = False\<rparr> \<longrightarrow>
                 handleKIZRequest ext' now faults db decoded = (db', resp, tr))
       \<and> (\<forall>ext'. fst (handleKIZRequest ext' now faults db decoded) = db')
       \<and> (status_code resp = 201 \<longrightarrow>
            (\<exists>request userID orderID rows.
               decoded = Some request
               \<and> getUserID (faults 1) (ko_TelegramID request) db = Inr userID
               \<and> orders db' = orders db @
                     [\<lparr>ord_id = orderID, ord_user_id = userID,
                       ord_total_amount =
                         order_TotalAmount
                           (fst (prepareOrder (ko_TelegramID request) (ko_GTINs request))),
                       ord_status = ''created'', ord_payment_id = [],
                       ord_created_at = now, ord_updated_at = now\<rparr>]
               \<and> orderID \<notin> set (map ord_id (orders db))
               \<and> order_items db' = order_items db @ rows
               \<and> map item_columns rows
                   = map (\<lambda>g. (orderID, gd_GTIN g, gd_Count g, Finite 100))
                       (ko_GTINs request)
               \<and> resp = \<lparr>status_code = 201,
                         body = JsonOrder orderID ''created''
                                  (fst (ext \<lparr>committed = db', in_tx = False\<rparr>
                                          (ko_GTINs request) (ko_INN request)))\<rparr>))
       \<and> (status_code resp \<noteq> 201 \<longrightarrow>
            db' = db
            \<and> (\<forall>ext'. handleKIZRequest ext' now faults db decoded = (db', resp, tr)))"
proof (cases decoded)
  case None
  with assms show ?thesis by (auto simp: handleKIZRequest_def)
next
  case (Some request)
  with assms have run: "handleKIZRequest ext now faults db (Some request) = (db', resp, tr)"
    by simp
  from run show ?thesis
  proof (cases rule: handleKIZRequest_cases)
    case rejected
    then show ?thesis
      using Some by auto
  next
    case (created userID ord0 items tx' ord2)
    note defs = handleKIZRequest_def Begin_def Commit_def Rollback_def
    have other: "handleKIZRequest ext' now faults db (Some request)
            = (tx', \<lparr>status_code = 201,
                      body = JsonOrder (order_ID ord2) ''created''
                               (fst (ext' \<lparr>committed = tx', in_tx = False\<rparr>
                                       (ko_GTINs request) (ko_INN request)))\<rparr>,
               [TxBegin, TxWork, TxCommit, ExternalCall, Reply, DeferredRollback])" for ext'
      by (rule handleKIZRequest_created [OF created(1,2,3,4,5,6)])
    have ord0: "ord0 = fst (prepareOrder (ko_TelegramID request) (ko_GTINs request))"
      using created(5) by simp
    have items: "items = map order_line (ko_GTINs request)"
      using created(5) prepareOrder_items [of "ko_TelegramID request" "ko_GTINs request"]
      by simp
    have status: "order_Status ord0 = ''created''" and payment: "order_PaymentID ord0 = []"
      unfolding ord0 by (rule prepareOrder_header)+
    have header: "orders db' = orders db @
                     [\<lparr>ord_id = order_ID ord2, ord_user_id = userID,
                       ord_total_amount =
                         order_TotalAmount
                           (fst (prepareOrder (ko_TelegramID request) (ko_GTINs request))),
                       ord_status = ''created'', ord_payment_id = [],
                       ord_created_at = now, ord_updated_at = now\<rparr>]"
      using createOrderTx_rows(1) [OF created(6)] created(7) status payment ord0 by simp
    from createOrderTx_rows(2) [OF created(6)] obtain rows where
      rows: "order_items db' = order_items db @ rows"
        "map item_columns rows
           = map (\<lambda>item. (order_ID ord2, item_GTIN item, item_Quantity item, item_Price item))
               items"
      using created(7) by auto
    have lines: "map item_columns rows
                   = map (\<lambda>g. (order_ID ord2, gd_GTIN g, gd_Count g, Finite 100))
                       (ko_GTINs request)"
      unfolding rows(2) items by (simp add: order_line_def)
    have fresh: "order_ID ord2 \<notin> set (map ord_id (orders db))"
      by (rule createOrderTx_new(1) [OF created(6)])
    have first: "\<forall>ext'. ext' \<lparr>committed = db', in_tx = False\<rparr>
                   = ext \<lparr>committed = db', in_tx = False\<rparr> \<longrightarrow>
                 handleKIZRequest ext' now faults db decoded = (db', resp, tr)"
      using other created(7,8,9) Some by simp
    have second: "\<forall>ext'. fst (handleKIZRequest ext' now faults db decoded) = db'"
      using other created(7) Some by simp
    have third: "\<exists>request userID orderID rows.
               decoded = Some request
               \<and> getUserID (faults 1) (ko_TelegramID request) db = Inr userID
               \<and> orders db' = orders db @
                     [\<lparr>ord_id = orderID, ord_user_id = userID,
                       ord_total_amount =
                         order_TotalAmount
                           (fst (prepareOrder (ko_TelegramID request) (ko_GTINs request))),
                       ord_status = ''created'', ord_payment_id = [],
                       ord_created_at = now, ord_updated_at = now\<rparr>]
               \<and> orderID \<notin> set (map ord_id (orders db))
               \<and> order_items db' = order_items db @ rows
               \<and> map item_columns rows
                   = map (\<lambda>g. (orderID, gd_GTIN g, gd_Count g, Finite 100))
                       (ko_GTINs request)
               \<and> resp = \<lparr>status_code = 201,
                         body = JsonOrder orderID ''created''
                                  (fst (ext \<lparr>committed = db', in_tx = False\<rparr>
                                          (ko_GTINs request) (ko_INN request)))\<rparr>"
      using Some created(2) header fresh rows(1) lines created(7,8) by blast
    have fourth: "status_code resp = 201"
      using created(8) by simp
    show ?thesis
      using first second third fourth by blast
  qed
qed

theorem order_creation_all_or_nothing_witness:
  "handleKIZRequest requestKIZFromExternalAPI 10 (\<lambda>n. n = 4) example_db
       (Some (example_order_request 2 3))
     = (example_db, \<lparr>status_code = 500, body = JsonError OrderCreateFailed\<rparr>,
        [TxBegin, TxWork, Reply, DeferredRollback])
   \<and> (\<exists>tx1. insert_order False 10
               ((fst (prepareOrder 123456789 (ko_GTINs (example_order_request 2 3))))
                  \<lparr>order_UserID := 1\<rparr>) example_db = Inr (tx1, 8)
            \<and> 8 \<in> set (map ord_id (orders tx1))
            \<and> insert_items (\<lambda>n. n = 4) 3 8
                  (snd (prepareOrder 123456789 (ko_GTINs (example_order_request 2 3)))) tx1
                = Inl ErrFault)
   \<and> 8 \<notin> set (map ord_id (orders example_db))
   \<and> fst (handleKIZRequest requestKIZFromExternalAPI 10 (\<lambda>n. n = 2) example_db
            (Some (example_order_request 2 3))) = example_db"
proof -
  let ?gtins = "ko_GTINs (example_order_request 2 3)"
  let ?ord0 = "fst (prepareOrder 123456789 ?gtins)"
  let ?items = "snd (prepareOrder 123456789 ?gtins)"
  let ?tx1 = "example_db\<lparr>orders := orders example_db @
                 [\<lparr>ord_id = 8, ord_user_id = 1, ord_total_amount = Finite 500,
                   ord_status = ''created'', ord_payment_id = [],
                   ord_created_at = 10, ord_updated_at = 10\<rparr>],
               seqs := (seqs example_db)\<lparr>orders_seq := 8\<rparr>\<rparr>"
  have user: "getUserID False (ko_TelegramID (example_order_request 2 3)) example_db = Inr 1"
    by (simp add: getUserID_def select_user_id_by_telegram_def example_order_request_def
          example_db_def example_user_def)
  have prep: "prepareOrder (ko_TelegramID (example_order_request 2 3)) ?gtins = (?ord0, ?items)"
    by (simp add: example_order_request_def)
  have items: "?items = [example_item 2, example_item 3]"
    by (simp add: prepareOrder_items example_order_request_def example_item_def
          order_line_def)
  have amount: "order_TotalAmount ?ord0 = Finite 500"
    using prepareOrder_exact [of ?gtins 123456789]
    by (simp add: example_order_request_def)
  have head: "insert_order False 10 (?ord0\<lparr>order_UserID := 1\<rparr>) example_db = Inr (?tx1, 8)"
    using amount
    by (simp add: insert_order_def Let_def prepareOrder_def split_beta
          example_db_def example_user_def example_order_def OrderStatusCreated_def)
  have rows: "insert_items (\<lambda>n. n = 4) 3 8 ?items ?tx1 = Inl ErrFault"
    unfolding items
    by (simp add: insert_order_item_def Let_def example_item_def example_db_def
          example_order_def)
  have failed: "handleKIZRequest requestKIZFromExternalAPI 10 (\<lambda>n. n = 4) example_db
       (Some (example_order_request 2 3))
     = (example_db, \<lparr>status_code = 500, body = JsonError OrderCreateFailed\<rparr>,
        [TxBegin, TxWork, Reply, DeferredRollback])
     \<and> 8 \<in> set (map ord_id (orders ?tx1))
     \<and> 8 \<notin> set (map ord_id (orders example_db))"
    using order_creation_all_or_nothing
      [of requestKIZFromExternalAPI 10 "\<lambda>n. n = 4" example_db
          "Some (example_order_request 2 3)" "example_order_request 2 3" 1
          ?ord0 ?items ?tx1 8 ErrFault]
      user prep head rows
    by simp
  have lost: "status_code (fst (snd (handleKIZRequest requestKIZFromExternalAPI 10
                 (\<lambda>n. n = 2) example_db (Some (example_order_request 2 3))))) \<noteq> 201"
    using user
    by (simp add: handleKIZRequest_def Begin_def Rollback_def createOrderTx_def
          insert_order_def split_beta example_order_request_def)
  have kept: "fst (handleKIZRequest requestKIZFromExternalAPI 10 (\<lambda>n. n = 2) example_db
            (Some (example_order_request 2 3))) = example_db"
    using order_creation_all_or_nothing
      [of requestKIZFromExternalAPI 10 "\<lambda>n. n = 2" example_db
          "Some (example_order_request 2 3)"] lost
    by blast
  show ?thesis
    using failed head rows kept by blast
qed

theorem commit_before_external_call_witness:
  "handleKIZRequest failing_service 10 (\<lambda>n. False) example_db
       (Some (example_order_request 2 3))
     = (example_db_ordered, \<lparr>status_code = 201, body = JsonOrder 8 ''created'' []\<rparr>,
        [TxBegin, TxWork, TxCommit, ExternalCall, Reply, DeferredRollback])
   \<and> fst (handleKIZRequest requestKIZFromExternalAPI 10 (\<lambda>n. False) example_db
        (Some (example_order_request 2 3))) = example_db_ordered
   \<and> handleKIZRequest (\<lambda>s gtins inn. if in_tx s then ([''early''], False) else ([], True))
        10 (\<lambda>n. False) example_db (Some (example_order_request 2 3))
     = (example_db_ordered, \<lparr>status_code = 201, body = JsonOrder 8 ''created'' []\<rparr>,
        [TxBegin, TxWork, TxCommit, ExternalCall, Reply, DeferredRollback])"
proof -
  let ?probe = "\<lambda>s gtins inn. if in_tx s then ([''early''], False) else ([], True)"
  let ?gtins = "ko_GTINs (example_order_request 2 3)"
  let ?ord0 = "fst (prepareOrder 123456789 ?gtins)"
  let ?tx1 = "example_db\<lparr>orders := orders example_db @
                 [\<lparr>ord_id = 8, ord_user_id = 1, ord_total_amount = Finite 500,
                   ord_status = ''created'', ord_payment_id = [],
                   ord_created_at = 10, ord_updated_at = 10\<rparr>],
               seqs := (seqs example_db)\<lparr>orders_seq := 8\<rparr>\<rparr>"
  have user: "getUserID False 123456789 example_db = Inr 1"
    by (simp add: getUserID_def select_user_id_by_telegram_def example_db_def
          example_user_def)
  have items: "snd (prepareOrder 123456789 ?gtins) = [example_item 2, example_item 3]"
    by (simp add: prepareOrder_items example_order_request_def example_item_def
          order_line_def)
  have amount: "order_TotalAmount ?ord0 = Finite 500"
    using prepareOrder_exact [of ?gtins 123456789]
    by (simp add: example_order_request_def)
  have head: "insert_order False 10 (?ord0\<lparr>order_UserID := 1\<rparr>) example_db = Inr (?tx1, 8)"
    using amount
    by (simp add: insert_order_def Let_def prepareOrder_def split_beta
          example_db_def example_user_def example_order_def OrderStatusCreated_def)
  have rows: "insert_items (\<lambda>n. False) 3 8 [example_item 2, example_item 3] ?tx1
                = Inr example_db_ordered"
    by (simp add: insert_order_item_def Let_def example_item_def example_db_def
          example_db_ordered_def example_order_def)
  have stored: "createOrderTx (\<lambda>n. False) 2 10 example_db (?ord0\<lparr>order_UserID := 1\<rparr>)
                  [example_item 2, example_item 3]
                = Inr (example_db_ordered,
                       ?ord0\<lparr>order_UserID := 1, order_ID := 8, order_CreatedAt := 10\<rparr>)"
    by (simp add: createOrderTx_def head rows del: insert_items.simps)
  have prep: "prepareOrder (ko_TelegramID (example_order_request 2 3)) ?gtins
                = (?ord0, [example_item 2, example_item 3])"
    using items by (simp add: prod_eq_iff example_order_request_def)
  have user': "getUserID False (ko_TelegramID (example_order_request 2 3)) example_db = Inr 1"
    using user by (simp add: example_order_request_def)
  have "handleKIZRequest failing_service 10 (\<lambda>n. False) example_db
       (Some (example_order_request 2 3))
     = (example_db_ordered,
        \<lparr>status_code = 201,
         body = JsonOrder
                  (order_ID (?ord0\<lparr>order_UserID := 1, order_ID := 8, order_CreatedAt := 10\<rparr>))
                  ''created''
                  (fst (failing_service \<lparr>committed = example_db_ordered, in_tx = False\<rparr>
                          ?gtins (ko_INN (example_order_request 2 3))))\<rparr>,
        [TxBegin, TxWork, TxCommit, ExternalCall, Reply, DeferredRollback])"
    by (rule handleKIZRequest_created [OF _ user' _ _ prep stored]) simp_all
  then have run: "handleKIZRequest failing_service 10 (\<lambda>n. False) example_db
       (Some (example_order_request 2 3))
     = (example_db_ordered, \<lparr>status_code = 201, body = JsonOrder 8 ''created'' []\<rparr>,
        [TxBegin, TxWork, TxCommit, ExternalCall, Reply, DeferredRollback])"
    by (simp add: failing_service_def)
  note facts = commit_before_external_call [OF run]
  have same: "fst (handleKIZRequest requestKIZFromExternalAPI 10 (\<lambda>n. False) example_db
        (Some (example_order_request 2 3))) = example_db_ordered"
    using facts by blast
  have agree: "?probe \<lparr>committed = example_db_ordered, in_tx = False\<rparr>
          = failing_service \<lparr>committed = example_db_ordered, in_tx = False\<rparr>"
    by (simp add: failing_service_def fun_eq_iff)
  have probe: "handleKIZRequest ?probe 10 (\<lambda>n. False) example_db
        (Some (example_order_request 2 3))
     = (example_db_ordered, \<lparr>status_code = 201, body = JsonOrder 8 ''created'' []\<rparr>,
        [TxBegin, TxWork, TxCommit, ExternalCall, Reply, DeferredRollback])"
    by (rule mp [OF spec [where x = ?probe, OF conjunct1 [OF facts]] agree])
  show ?thesis
    by (intro conjI run same probe)
qed

section \<open>Properties of validation\<close>

lemma validate_items_quantity:
  "\<exists>item \<in> set items. item_Quantity item \<le> 0 \<Longrightarrow> validate_items i items \<noteq> None"
  by (induction items arbitrary: i)
     (auto simp: OrderItem_Validate_def split: option.splits)

text \<open>
  The two \<open>Validate\<close> methods do what the specification says: \<open>Order.Validate\<close>
  returns an error for every order whose list of items is empty and for every order
  with an item of quantity zero or less, and \<open>OrderItem.Validate\<close> returns one for
  every such item. \<open>kizHandler\<close>, whose request lists codes without quantities,
  answers a request with an empty list with status 400 (405 when the method is not
  POST) and leaves the database as it was.
\<close>

lemma validate_methods_reject:
  "(order_Items ord = [] \<or> (\<exists>item \<in> set (order_Items ord). item_Quantity item \<le> 0)
      \<longrightarrow> Order_Validate ord \<noteq> None)
   \<and> (item_Quantity item \<le> 0 \<longrightarrow> OrderItem_Validate item \<noteq> None)
   \<and> (kq_GTINs request = [] \<longrightarrow>
        kizHandler pdf now faults db httpMethod (Some request) =
          (db, if httpMethod \<noteq> ''POST''
               then \<lparr>status_code = 405, body = Text MethodNotSupported\<rparr>
               else \<lparr>status_code = 400, body = JsonError RequiredFieldsMissing\<rparr>))"
proof (intro conjI impI)
  assume bad: "order_Items ord = [] \<or> (\<exists>item \<in> set (order_Items ord). item_Quantity item \<le> 0)"
  show "Order_Validate ord \<noteq> None"
  proof (cases "order_Items ord = []")
    case True
    then show ?thesis by (simp add: Order_Validate_def)
  next
    case False
    with bad have "validate_items 0 (order_Items ord) \<noteq> None"
      using validate_items_quantity by blast
    then show ?thesis
      by (auto simp: Order_Validate_def split: option.splits)
  qed
next
  assume "item_Quantity item \<le> 0"
  then show "OrderItem_Validate item \<noteq> None"
    by (simp add: OrderItem_Validate_def)
next
  assume "kq_GTINs request = []"
  then show "kizHandler pdf now faults db httpMethod (Some request) =
          (db, if httpMethod \<noteq> ''POST''
               then \<lparr>status_code = 405, body = Text MethodNotSupported\<rparr>
               else \<lparr>status_code = 400, body = JsonError RequiredFieldsMissing\<rparr>)"
    by (simp add: kizHandler_def)
qed

lemma validation_examples:
  "Order_Validate (example_order_of [] (Finite 0)) = Some NoItems
   \<and> Order_Validate (example_order_of [example_item 2, example_item 0] (Finite 200))
       = Some (ItemInvalid 2 QuantityNotPositive)
   \<and> OrderItem_Validate (example_item 0) = Some QuantityNotPositive
   \<and> kizHandler (\<lambda>kizs. Some ''kizs.pdf'') 10 (\<lambda>n. False) example_main_db ''POST''
        (Some \<lparr>kq_TelegramID = 123456789, kq_GTINs = [], kq_INN = ''7707083893''\<rparr>)
       = (example_main_db, \<lparr>status_code = 400, body = JsonError RequiredFieldsMissing\<rparr>)"
  by (simp add: example_order_of_def example_item_def Order_Validate_def
        OrderItem_Validate_def kizHandler_def)

text \<open>
  \<open>handleKIZRequest\<close>, the handler whose request has quantities, calls no validation
  and makes no check of the lines: a decoded request is never answered with a
  validation failure (status 400). The reply is 201 when the database executes the
  statements, and 500 or 401 otherwise.
\<close>

lemma handleKIZRequest_never_validates:
  "status_code (fst (snd (handleKIZRequest ext now faults db (Some request))))
     \<in> {201, 401, 500}"
proof -
  obtain db' resp tr where
    run: "handleKIZRequest ext now faults db (Some request) = (db', resp, tr)"
    by (cases "handleKIZRequest ext now faults db (Some request)")
  from run show ?thesis
  proof (cases rule: handleKIZRequest_cases)
    case rejected
    with run show ?thesis by auto
  next
    case created
    with run show ?thesis by simp
  qed
qed


end
